theory Spec2Isabelle
  imports Main
begin

section \<open>Python values, exceptions and the warehouse client\<close>

text \<open>
  Strings are Python \<open>str\<close> values over the code points 0 to 255, one \<open>char\<close> each.
  The calls of \<open>logger\<close> and the \<open>time.time()\<close> measurements of the source change no
  result and are left out of the model (the logging module reports a failing handler itself
  and raises nothing). The \<open>print\<close> of the table dump is modelled: it stands inside the
  \<open>try\<close> and can raise.
\<close>

text \<open>
  The exceptions a call can raise, each carrying \<open>str(e)\<close>. The classes are the ones
  the \<open>except\<close> clauses of \<open>src/api/bigquery_endpoints.py\<close> tell apart:
  \<open>NotFound\<close> is a subclass of \<open>GoogleCloudError\<close>, which is a subclass of
  \<open>Exception\<close>; \<open>NonException\<close> stands for a \<open>BaseException\<close> that is no
  \<open>Exception\<close> (\<open>KeyboardInterrupt\<close>, \<open>SystemExit\<close>).
\<close>

datatype exn =
    NotFound string
  | GoogleCloudError string
  | OtherException string
  | NonException string

fun str_exn :: "exn \<Rightarrow> string" where
  "str_exn (NotFound m) = m"
| "str_exn (GoogleCloudError m) = m"
| "str_exn (OtherException m) = m"
| "str_exn (NonException m) = m"

fun isinstance_NotFound :: "exn \<Rightarrow> bool" where
  "isinstance_NotFound (NotFound m) = True"
| "isinstance_NotFound (GoogleCloudError m) = False"
| "isinstance_NotFound (OtherException m) = False"
| "isinstance_NotFound (NonException m) = False"

fun isinstance_GoogleCloudError :: "exn \<Rightarrow> bool" where
  "isinstance_GoogleCloudError (NotFound m) = True"
| "isinstance_GoogleCloudError (GoogleCloudError m) = True"
| "isinstance_GoogleCloudError (OtherException m) = False"
| "isinstance_GoogleCloudError (NonException m) = False"

fun isinstance_Exception :: "exn \<Rightarrow> bool" where
  "isinstance_Exception (NotFound m) = True"
| "isinstance_Exception (GoogleCloudError m) = True"
| "isinstance_Exception (OtherException m) = True"
| "isinstance_Exception (NonException m) = False"

text \<open>What leaves a request handler instead of a return value.\<close>

datatype raised =
    HTTPException nat string
  | Propagated exn

text \<open>A cell of a result row, and a row as the mapping from column name to value.\<close>

datatype bq_value = IntV int | StrV string | NullV

type_synonym row = "string \<rightharpoonup> bq_value"

text \<open>\<open>bigquery.ScalarQueryParameter(name, type_, value)\<close>.\<close>

datatype py_value = PyStr string | PyInt int

datatype query_parameter = ScalarQueryParameter string string py_value

text \<open>
  The warehouse client: \<open>client.query(query, job_config).result()\<close>, iterated to the end,
  either raises or yields the rows. The dump query is sent with no job configuration, which
  is the empty parameter list.
\<close>

type_synonym client = "string \<Rightarrow> query_parameter list \<Rightarrow> exn + row list"

text \<open>
  What the process finds around it: the outcome of \<open>get_bigquery_client()\<close> (reading the
  credentials raises when they are missing), the interpreter's limit on the digits of
  an integer string (\<open>sys.get_int_max_str_digits()\<close>, 0 when there is none, at least 640
  otherwise), and what writing a line to the standard output does (\<open>None\<close> when the line
  is written, the exception otherwise: a stream that is closed or cannot encode the text).
\<close>

record environment =
  get_bigquery_client :: "exn + client"
  int_max_str_digits :: nat
  stdout_write :: "string \<Rightarrow> exn option"

text \<open>
  \<open>auth/bigquery_config.py\<close>, \<open>get_client\<close>: the global \<open>_bq_client\<close> is the state;
  it is set on the first successful construction and reused afterwards.
\<close>

definition get_client :: "environment \<Rightarrow> client option \<Rightarrow> (exn + client) \<times> client option" where
  "get_client env bq_client =
     (case bq_client of
        None \<Rightarrow>
          (case get_bigquery_client env of
             Inl e \<Rightarrow> (Inl e, None)
           | Inr c \<Rightarrow> (Inr c, Some c))
      | Some c \<Rightarrow> (Inr c, Some c))"

section \<open>Rendering and reading integers\<close>

text \<open>\<open>str(n)\<close> for a Python int.\<close>

fun str_nat :: "nat \<Rightarrow> string" where
  "str_nat n =
     (if n < 10 then [''0123456789'' ! n]
      else str_nat (n div 10) @ [''0123456789'' ! (n mod 10)])"

declare str_nat.simps [simp del]

definition str_int :: "int \<Rightarrow> string" where
  "str_int i = (if i < 0 then ''-'' @ str_nat (nat (- i)) else str_nat (nat i))"

text \<open>
  \<open>str(i)\<close> under the interpreter's digit limit: an integer of more decimal digits than
  the limit raises \<open>ValueError\<close>.
\<close>

definition str_int_limited :: "nat \<Rightarrow> int \<Rightarrow> exn + string" where
  "str_int_limited maxd i =
     (if maxd \<noteq> 0 \<and> maxd < length (str_nat (nat (abs i)))
      then Inl (OtherException
                  (''Exceeds the limit ('' @ str_nat maxd
                   @ '' digits) for integer string conversion; ''
                   @ ''use sys.set_int_max_str_digits() to increase the limit''))
      else Inr (str_int i))"

text \<open>
  \<open>int(s)\<close> for a Python str, \<open>None\<close> where it raises \<open>ValueError\<close>: surrounding
  whitespace is dropped, one sign is allowed, then decimal digits follow, with single
  underscores allowed between digits.
\<close>

definition py_isspace :: "char \<Rightarrow> bool" where
  "py_isspace c =
     (c \<in> set [CHR 0x09, CHR 0x0A, CHR 0x0B, CHR 0x0C, CHR 0x0D, CHR 0x20, CHR 0x85, CHR 0xA0])"

definition strip_ws :: "string \<Rightarrow> string" where
  "strip_ws s = rev (dropWhile py_isspace (rev (dropWhile py_isspace s)))"

definition is_digit :: "char \<Rightarrow> bool" where
  "is_digit c = (c \<in> set ''0123456789'')"

definition digit_val :: "char \<Rightarrow> nat" where
  "digit_val c = of_char c - 48"

fun well_grouped :: "string \<Rightarrow> bool" where
  "well_grouped [] = False"
| "well_grouped [c] = is_digit c"
| "well_grouped (c # d # cs) =
     (if is_digit c
      then (if d = CHR ''_'' then well_grouped cs else well_grouped (d # cs))
      else False)"

definition py_int :: "nat \<Rightarrow> string \<Rightarrow> int option" where
  "py_int lim s =
     (let t = strip_ws s;
          neg = (case t of [] \<Rightarrow> False | c # cs \<Rightarrow> c = CHR ''-'');
          body = (case t of [] \<Rightarrow> []
                  | c # cs \<Rightarrow> if c = CHR ''-'' \<or> c = CHR ''+'' then cs else t);
          ds = filter is_digit body;
          v = int (foldl (\<lambda>a c. 10 * a + digit_val c) 0 ds)
      in if \<not> well_grouped body then None
         else if lim \<noteq> 0 \<and> lim < length ds then None
         else Some (if neg then - v else v))"

text \<open>\<open>s.split(sep, 1)\<close> for a separator of one character, and \<open>sep.join(xs)\<close>.\<close>

definition split1 :: "char \<Rightarrow> string \<Rightarrow> string list" where
  "split1 sep s =
     (if sep \<in> set s
      then [takeWhile (\<lambda>c. c \<noteq> sep) s, tl (dropWhile (\<lambda>c. c \<noteq> sep) s)]
      else [s])"

fun join :: "string \<Rightarrow> string list \<Rightarrow> string" where
  "join sep [] = []"
| "join sep [x] = x"
| "join sep (x # y # ys) = x @ sep @ join sep (y # ys)"

section \<open>Table resolution\<close>

definition PROJECT_ID :: string where
  "PROJECT_ID = ''iucc-f4d''"

text \<open>
  Lines 52 to 59 and 277 to 284: the table of a device is
  \<open>f"{mac_address}_metadata"\<close>, its dataset is the hostname, and the full identifier is
  \<open>f"{PROJECT_ID}.{dataset}.{table_name}"\<close>. Line 203 builds the full identifier of the
  dump from the dataset and table it is given.
\<close>

definition table_name :: "string \<Rightarrow> string" where
  "table_name mac_address = mac_address @ ''_metadata''"

definition full_table_name :: "string \<Rightarrow> string \<Rightarrow> string" where
  "full_table_name dataset tbl = PROJECT_ID @ ''.'' @ dataset @ ''.'' @ tbl"

section \<open>Validation\<close>

record validation_result =
  is_valid :: bool
  message :: string
  error :: "string option"

text \<open>Lines 74 to 80: the query text, with the table identifier put in by \<open>format\<close>.\<close>

definition validation_query :: "string \<Rightarrow> string" where
  "validation_query full =
     ''\<newline>        SELECT COUNT(*) as count\<newline>        FROM `'' @ full @
     ''`\<newline>        WHERE Owner = @hostname\<newline>          AND Mac_Address = @mac_address\<newline>          AND LLA = @LLA\<newline>        ''"

text \<open>Lines 83 to 89: the bound parameters.\<close>

definition validation_parameters :: "string \<Rightarrow> string \<Rightarrow> string \<Rightarrow> query_parameter list" where
  "validation_parameters hostname mac_address LLA =
     [ScalarQueryParameter ''hostname'' ''STRING'' (PyStr hostname),
      ScalarQueryParameter ''mac_address'' ''STRING'' (PyStr mac_address),
      ScalarQueryParameter ''LLA'' ''STRING'' (PyStr LLA)]"

text \<open>
  Lines 98 to 103: \<open>next(results)\<close> raises \<open>StopIteration\<close> on an empty result,
  \<open>row.count\<close> raises \<open>AttributeError\<close> when the row has no such field, and
  \<open>count >= 1\<close> raises \<open>TypeError\<close> on a value that is no number. The texts of the
  last two are the client library's and the interpreter's.
\<close>

definition quoted :: "string \<Rightarrow> string" where
  "quoted s = [CHR 0x27] @ s @ [CHR 0x27]"

definition first_count :: "row list \<Rightarrow> exn + int" where
  "first_count results =
     (case results of
        [] \<Rightarrow> Inl (OtherException [])
      | row # rest \<Rightarrow>
          (case row ''count'' of
             None \<Rightarrow> Inl (OtherException (''no row field '' @ quoted ''count''))
           | Some (IntV n) \<Rightarrow> Inr n
           | Some (StrV s) \<Rightarrow>
               Inl (OtherException (quoted ''>='' @ '' not supported between instances of ''
                      @ quoted ''str'' @ '' and '' @ quoted ''int''))
           | Some NullV \<Rightarrow>
               Inl (OtherException (quoted ''>='' @ '' not supported between instances of ''
                      @ quoted ''NoneType'' @ '' and '' @ quoted ''int''))))"

text \<open>
  Lines 103 to 129: the result for a count. The count is the \<open>INT64\<close> of \<open>COUNT(*)\<close>,
  of at most 19 digits, so \<open>str(count)\<close> in the message stays below every digit limit.
\<close>

definition count_result :: "int \<Rightarrow> validation_result" where
  "count_result n =
     (if n \<ge> 1
      then \<lparr>is_valid = True,
            message = (if n > 1
                       then ''LLA found in metadata (exists in '' @ str_int n @ '' record(s))''
                       else ''LLA found in metadata''),
            error = None\<rparr>
      else \<lparr>is_valid = False, message = ''LLA not found in metadata'', error = None\<rparr>)"

text \<open>Lines 61 to 129: the body of the \<open>try\<close>, given what \<open>get_client()\<close> did.\<close>

definition validation_try ::
  "(exn + client) \<Rightarrow> string \<Rightarrow> string \<Rightarrow> string \<Rightarrow> exn + validation_result" where
  "validation_try got hostname mac_address LLA =
     (case got of
        Inl e \<Rightarrow> Inl e
      | Inr client \<Rightarrow>
          (case client (validation_query (full_table_name hostname (table_name mac_address)))
                       (validation_parameters hostname mac_address LLA) of
             Inl e \<Rightarrow> Inl e
           | Inr results \<Rightarrow>
               (case first_count results of
                  Inl e \<Rightarrow> Inl e
                | Inr n \<Rightarrow> Inr (count_result n))))"

text \<open>Lines 131 to 174: the \<open>except\<close> clauses, in the order of the source.\<close>

definition validation_except ::
  "string \<Rightarrow> string \<Rightarrow> exn \<Rightarrow> raised + validation_result" where
  "validation_except hostname mac_address e =
     (if isinstance_NotFound e
      then Inr \<lparr>is_valid = False,
                message = ''Metadata table not found for MAC address: '' @ mac_address,
                error = Some (''Metadata table not found: ''
                                @ full_table_name hostname (table_name mac_address))\<rparr>
      else if isinstance_GoogleCloudError e
      then Inr \<lparr>is_valid = False, message = ''Validation failed'',
                error = Some (''BigQuery error: '' @ str_exn e)\<rparr>
      else if isinstance_Exception e
      then Inr \<lparr>is_valid = False, message = ''Validation failed'',
                error = Some (''Error validating LLA: '' @ str_exn e)\<rparr>
      else Inl (Propagated e))"

definition validate_sensor_lla ::
  "environment \<Rightarrow> client option \<Rightarrow> string \<Rightarrow> string \<Rightarrow> string
     \<Rightarrow> (raised + validation_result) \<times> client option" where
  "validate_sensor_lla env bq_client hostname mac_address LLA =
     (let (got, bq_client') = get_client env bq_client
      in (case validation_try got hostname mac_address LLA of
            Inr r \<Rightarrow> (Inr r, bq_client')
          | Inl e \<Rightarrow> (validation_except hostname mac_address e, bq_client')))"

section \<open>The table dump\<close>

record table_response =
  success :: bool
  project :: string
  dataset :: string
  table :: string
  full_table :: string
  count :: nat
  data :: "row list"

record dump_response = table_response +
  limit :: int
  offset :: int

text \<open>
  Lines 207 to 212: the f-string puts \<open>str(limit)\<close> and then \<open>str(offset)\<close> into the
  text; either conversion raises past the digit limit, and then no query text exists.
\<close>

definition dump_query :: "nat \<Rightarrow> string \<Rightarrow> int \<Rightarrow> int \<Rightarrow> exn + string" where
  "dump_query maxd full lim off =
     (case str_int_limited maxd lim of
        Inl e \<Rightarrow> Inl e
      | Inr l \<Rightarrow>
          (case str_int_limited maxd off of
             Inl e \<Rightarrow> Inl e
           | Inr ofs \<Rightarrow>
               Inr (''\<newline>        SELECT *\<newline>        FROM `'' @ full @
                    ''`\<newline>        LIMIT '' @ l @
                    ''\<newline>        OFFSET '' @ ofs @ ''\<newline>        '')))"

text \<open>\<open>dict(row)\<close> copies the mapping of a row.\<close>

definition dict_row :: "row \<Rightarrow> row" where
  "dict_row r = r"

text \<open>
  Lines 235 to 238: what the \<open>except\<close> clauses raise. There is no \<open>NotFound\<close> clause
  here, so an absent table is caught as a \<open>GoogleCloudError\<close>.
\<close>

definition dump_except :: "exn \<Rightarrow> raised" where
  "dump_except e =
     (if isinstance_GoogleCloudError e
      then HTTPException 500 (''BigQuery error: '' @ str_exn e)
      else if isinstance_Exception e
      then HTTPException 500 (''Error querying table: '' @ str_exn e)
      else Propagated e)"

text \<open>
  Lines 199 to 238. Inside the \<open>try\<close>, in this order: \<open>get_client()\<close>, the
  \<open>print\<close> of line 204, the f-string of the query, and the call of the client.
\<close>

definition query_metadata_table ::
  "environment \<Rightarrow> client option \<Rightarrow> string \<Rightarrow> string \<Rightarrow> int \<Rightarrow> int
     \<Rightarrow> (raised + dump_response) \<times> client option" where
  "query_metadata_table env bq_client dset tbl lim off =
     (let (got, bq_client') = get_client env bq_client;
          attempt =
            (case got of
               Inl e \<Rightarrow> Inl e
             | Inr client \<Rightarrow>
                 (case stdout_write env (''Full table name: '' @ full_table_name dset tbl) of
                    Some e \<Rightarrow> Inl e
                  | None \<Rightarrow>
                      (case dump_query (int_max_str_digits env) (full_table_name dset tbl)
                              lim off of
                         Inl e \<Rightarrow> Inl e
                       | Inr query \<Rightarrow>
                           (case client query [] of
                              Inl e \<Rightarrow> Inl e
                            | Inr results \<Rightarrow>
                                (let rows = map dict_row results
                                 in Inr \<lparr>success = True, project = PROJECT_ID,
                                         dataset = dset, table = tbl,
                                         full_table = full_table_name dset tbl,
                                         count = length rows, data = rows,
                                         limit = lim, offset = off\<rparr>)))))
      in (case attempt of
            Inr r \<Rightarrow> (Inr r, bq_client')
          | Inl e \<Rightarrow> (Inl (dump_except e), bq_client')))"

section \<open>The filtered listing\<close>

text \<open>
  Lines 291 to 322: the conditions and the bound parameters. \<open>lla\<close> and
  \<open>experiment\<close> are optional strings; \<open>if lla and not all\<close> is the truth value of the
  string, so \<open>None\<close> and the empty string both skip the branch. A \<open>ValueError\<close> of
  \<open>int\<close> is caught before anything was appended.
\<close>

definition query_filters ::
  "nat \<Rightarrow> string \<Rightarrow> string \<Rightarrow> string option \<Rightarrow> string option \<Rightarrow> bool
     \<Rightarrow> string list \<times> query_parameter list" where
  "query_filters maxd hostname mac_address lla experiment all =
     (let conditions = [''Owner = @hostname'', ''Mac_Address = @mac_address''];
          query_parameters =
            [ScalarQueryParameter ''hostname'' ''STRING'' (PyStr hostname),
             ScalarQueryParameter ''mac_address'' ''STRING'' (PyStr mac_address)];
          (conditions, query_parameters) =
            (case lla of
               None \<Rightarrow> (conditions, query_parameters)
             | Some v \<Rightarrow>
                 if v \<noteq> [] \<and> \<not> all
                 then (conditions @ [''LLA = @lla''],
                       query_parameters @ [ScalarQueryParameter ''lla'' ''STRING'' (PyStr v)])
                 else (conditions, query_parameters))
      in (case experiment of
            None \<Rightarrow> (conditions, query_parameters)
          | Some x \<Rightarrow>
              if x \<noteq> [] \<and> \<not> all
              then (case split1 CHR ''_'' x of
                      [exp_id_str, exp_name] \<Rightarrow>
                        (case py_int maxd exp_id_str of
                           None \<Rightarrow> (conditions, query_parameters)
                         | Some exp_id \<Rightarrow>
                             (conditions @ [''Exp_ID = @exp_id AND Exp_Name = @exp_name''],
                              query_parameters
                                @ [ScalarQueryParameter ''exp_id'' ''INT64'' (PyInt exp_id),
                                   ScalarQueryParameter ''exp_name'' ''STRING'' (PyStr exp_name)]))
                    | _ \<Rightarrow> (conditions, query_parameters))
              else (conditions, query_parameters)))"

text \<open>Lines 324 to 330: the query text.\<close>

definition listing_query :: "string \<Rightarrow> string list \<Rightarrow> string" where
  "listing_query full conditions =
     ''\<newline>        SELECT *\<newline>        FROM `'' @ full @
     ''`\<newline>        WHERE '' @ join '' AND '' conditions @
     ''\<newline>        ORDER BY Exp_ID, Exp_Name, LLA\<newline>        ''"

text \<open>Lines 367 to 397: what the \<open>except\<close> clauses raise, in the order of the source.\<close>

definition listing_except :: "string \<Rightarrow> exn \<Rightarrow> raised" where
  "listing_except full e =
     (if isinstance_NotFound e
      then HTTPException 404 (''Metadata table not found: '' @ full)
      else if isinstance_GoogleCloudError e
      then HTTPException 500 (''BigQuery error: '' @ str_exn e)
      else if isinstance_Exception e
      then HTTPException 500 (''Error querying metadata: '' @ str_exn e)
      else Propagated e)"

text \<open>Lines 277 to 397.\<close>

definition query_active_metadata ::
  "environment \<Rightarrow> client option \<Rightarrow> string \<Rightarrow> string \<Rightarrow> string option \<Rightarrow> string option \<Rightarrow> bool
     \<Rightarrow> (raised + table_response) \<times> client option" where
  "query_active_metadata env bq_client hostname mac_address lla experiment all =
     (let full = full_table_name hostname (table_name mac_address);
          (got, bq_client') = get_client env bq_client;
          attempt =
            (case got of
               Inl e \<Rightarrow> Inl e
             | Inr client \<Rightarrow>
                 (let (conditions, query_parameters) =
                        query_filters (int_max_str_digits env) hostname mac_address
                          lla experiment all
                  in (case client (listing_query full conditions) query_parameters of
                        Inl e \<Rightarrow> Inl e
                      | Inr results \<Rightarrow>
                          (let rows = map dict_row results
                           in Inr \<lparr>success = True, project = PROJECT_ID, dataset = hostname,
                                   table = table_name mac_address, full_table = full,
                                   count = length rows, data = rows\<rparr>))))
      in (case attempt of
            Inr r \<Rightarrow> (Inr r, bq_client')
          | Inl e \<Rightarrow> (Inl (listing_except full e), bq_client')))"

section \<open>Auxiliary notions for the properties\<close>

text \<open>
  What the warehouse does with a query from a given state of the global client: the
  exception of \<open>get_client()\<close>, or else what the client answers.
\<close>

definition backend_outcome ::
  "environment \<Rightarrow> client option \<Rightarrow> string \<Rightarrow> query_parameter list \<Rightarrow> exn + row list" where
  "backend_outcome env bq_client query query_parameters =
     (case fst (get_client env bq_client) of
        Inl e \<Rightarrow> Inl e
      | Inr client \<Rightarrow> client query query_parameters)"

text \<open>An integer whose decimal digits the interpreter's limit lets through.\<close>

definition within_digit_limit :: "nat \<Rightarrow> int \<Rightarrow> bool" where
  "within_digit_limit maxd i = (maxd = 0 \<or> length (str_nat (nat (abs i))) \<le> maxd)"

text \<open>The \<open>name\<close> attribute of a bound parameter.\<close>

fun parameter_name :: "query_parameter \<Rightarrow> string" where
  "parameter_name (ScalarQueryParameter name ty v) = name"

text \<open>
  When the filters of a listing are in force. The LLA filter wants a non-empty \<open>lla\<close> and
  \<open>all = False\<close>. The experiment string is cut at its first underscore: the text before
  it is read by \<open>int\<close> and the text after it is the name; a string with no underscore has
  no identifier.
\<close>

definition lla_active :: "string option \<Rightarrow> bool \<Rightarrow> bool" where
  "lla_active lla all = (case lla of None \<Rightarrow> False | Some v \<Rightarrow> v \<noteq> [] \<and> \<not> all)"

definition experiment_id :: "nat \<Rightarrow> string \<Rightarrow> int option" where
  "experiment_id maxd x =
     (if CHR ''_'' \<in> set x then py_int maxd (takeWhile (\<lambda>c. c \<noteq> CHR ''_'') x) else None)"

definition experiment_name :: "string \<Rightarrow> string" where
  "experiment_name x = tl (dropWhile (\<lambda>c. c \<noteq> CHR ''_'') x)"

definition experiment_active :: "nat \<Rightarrow> string option \<Rightarrow> bool \<Rightarrow> bool" where
  "experiment_active maxd experiment all =
     (case experiment of
        None \<Rightarrow> False
      | Some x \<Rightarrow> x \<noteq> [] \<and> \<not> all \<and> experiment_id maxd x \<noteq> None)"

section \<open>The handlers in terms of the backend outcome\<close>

lemma validate_by_outcome:
  "fst (validate_sensor_lla env bq_client hostname mac_address LLA) =
     (case backend_outcome env bq_client
             (validation_query (full_table_name hostname (table_name mac_address)))
             (validation_parameters hostname mac_address LLA) of
        Inl e \<Rightarrow> validation_except hostname mac_address e
      | Inr results \<Rightarrow>
          (case first_count results of
             Inl e \<Rightarrow> validation_except hostname mac_address e
           | Inr n \<Rightarrow> Inr (count_result n)))"
  by (simp add: validate_sensor_lla_def validation_try_def backend_outcome_def
           split: sum.splits prod.splits)

lemma map_dict_row: "map dict_row results = results"
  by (induction results) (simp_all add: dict_row_def)

lemma listing_by_outcome:
  "fst (query_active_metadata env bq_client hostname mac_address lla experiment all) =
     (case backend_outcome env bq_client
             (listing_query (full_table_name hostname (table_name mac_address))
                (fst (query_filters (int_max_str_digits env) hostname mac_address lla experiment all)))
             (snd (query_filters (int_max_str_digits env) hostname mac_address lla experiment all)) of
        Inl e \<Rightarrow> Inl (listing_except (full_table_name hostname (table_name mac_address)) e)
      | Inr results \<Rightarrow>
          Inr \<lparr>success = True, project = PROJECT_ID, dataset = hostname,
               table = table_name mac_address,
               full_table = full_table_name hostname (table_name mac_address),
               count = length results, data = results\<rparr>)"
proof -
  obtain got st where g: "get_client env bq_client = (got, st)"
    by (cases "get_client env bq_client")
  obtain cs ps where f:
    "query_filters (int_max_str_digits env) hostname mac_address lla experiment all = (cs, ps)"
    by (cases "query_filters (int_max_str_digits env) hostname mac_address lla experiment all")
  show ?thesis
  proof (cases got)
    case (Inl e)
    with g f show ?thesis
      by (simp add: query_active_metadata_def backend_outcome_def
               split del: if_split)
  next
    case (Inr client)
    with g f show ?thesis
      by (cases "client (listing_query (full_table_name hostname (table_name mac_address)) cs) ps")
         (simp_all add: query_active_metadata_def backend_outcome_def
               map_dict_row split del: if_split)
  qed
qed

lemma first_count_Exception: "first_count results = Inl e \<Longrightarrow> isinstance_Exception e"
  by (auto simp: first_count_def split: list.splits option.splits bq_value.splits)

lemma validation_except_returns:
  "isinstance_Exception e \<Longrightarrow>
   \<exists>r. validation_except hostname mac_address e = Inr r \<and> \<not> is_valid r \<and> error r \<noteq> None"
  by (simp add: validation_except_def)


lemma dump_by_outcome:
  "fst (query_metadata_table env bq_client dset tbl lim off) =
     (case fst (get_client env bq_client) of
        Inl e \<Rightarrow> Inl (dump_except e)
      | Inr client \<Rightarrow>
          (case stdout_write env (''Full table name: '' @ full_table_name dset tbl) of
             Some e \<Rightarrow> Inl (dump_except e)
           | None \<Rightarrow>
               (case dump_query (int_max_str_digits env) (full_table_name dset tbl) lim off of
                  Inl e \<Rightarrow> Inl (dump_except e)
                | Inr query \<Rightarrow>
                    (case client query [] of
                       Inl e \<Rightarrow> Inl (dump_except e)
                     | Inr results \<Rightarrow>
                         Inr \<lparr>success = True, project = PROJECT_ID, dataset = dset,
                              table = tbl, full_table = full_table_name dset tbl,
                              count = length results, data = results,
                              limit = lim, offset = off\<rparr>))))"
proof -
  obtain got st where g: "get_client env bq_client = (got, st)"
    by (cases "get_client env bq_client")
  show ?thesis
    using g
    by (simp add: query_metadata_table_def map_dict_row
             split: sum.splits option.splits)
qed

lemma str_int_limited_within:
  "within_digit_limit maxd i \<Longrightarrow> str_int_limited maxd i = Inr (str_int i)"
  by (auto simp: within_digit_limit_def str_int_limited_def)

lemma str_int_limited_beyond:
  "\<not> within_digit_limit maxd i \<Longrightarrow>
   \<exists>m. str_int_limited maxd i = Inl (OtherException m)"
  by (auto simp: within_digit_limit_def str_int_limited_def)

lemma str_int_limited_Inr:
  "str_int_limited maxd i = Inr t \<Longrightarrow> within_digit_limit maxd i \<and> t = str_int i"
  by (auto simp: within_digit_limit_def str_int_limited_def split: if_splits)

lemma dump_query_within:
  "within_digit_limit maxd lim \<Longrightarrow> within_digit_limit maxd off \<Longrightarrow>
   dump_query maxd full lim off =
     Inr (''\<newline>        SELECT *\<newline>        FROM `'' @ full @
          ''`\<newline>        LIMIT '' @ str_int lim @
          ''\<newline>        OFFSET '' @ str_int off @ ''\<newline>        '')"
  by (simp add: dump_query_def str_int_limited_within)

lemma dump_query_Inr:
  "dump_query maxd full lim off = Inr q \<Longrightarrow>
   within_digit_limit maxd lim \<and> within_digit_limit maxd off
   \<and> q = ''\<newline>        SELECT *\<newline>        FROM `'' @ full @
          ''`\<newline>        LIMIT '' @ str_int lim @
          ''\<newline>        OFFSET '' @ str_int off @ ''\<newline>        ''"
  by (auto simp: dump_query_def split: sum.splits dest: str_int_limited_Inr)

lemma dump_query_beyond:
  "\<not> (within_digit_limit maxd lim \<and> within_digit_limit maxd off) \<Longrightarrow>
   \<exists>m. dump_query maxd full lim off = Inl (OtherException m)"
proof (cases "within_digit_limit maxd lim")
  case True
  assume "\<not> (within_digit_limit maxd lim \<and> within_digit_limit maxd off)"
  with True have "\<not> within_digit_limit maxd off" by simp
  then obtain m where "str_int_limited maxd off = Inl (OtherException m)"
    using str_int_limited_beyond by blast
  with True show ?thesis
    by (simp add: dump_query_def str_int_limited_within)
next
  case False
  then obtain m where "str_int_limited maxd lim = Inl (OtherException m)"
    using str_int_limited_beyond by blast
  then show ?thesis
    by (simp add: dump_query_def)
qed

section \<open>Properties of validation\<close>

lemma validate_with_client:
  "get_client env bq_client = (Inr client, bq_client') \<Longrightarrow>
   fst (validate_sensor_lla env bq_client hostname mac_address LLA) =
     (case client (validation_query (full_table_name hostname (table_name mac_address)))
                  (validation_parameters hostname mac_address LLA) of
        Inl e \<Rightarrow> validation_except hostname mac_address e
      | Inr results \<Rightarrow>
          (case first_count results of
             Inl e \<Rightarrow> validation_except hostname mac_address e
           | Inr n \<Rightarrow> Inr (count_result n)))"
  by (simp add: validate_sensor_lla_def validation_try_def split: sum.splits)

text \<open>
  C1: when the query runs and its first row carries an integer \<open>count\<close>, a count of 0
  gives \<open>is_valid = False\<close> with the message "LLA not found in metadata" and no error, a
  count of 1 gives \<open>is_valid = True\<close> with "LLA found in metadata" and no error, and a
  count above 1 gives \<open>is_valid = True\<close>, no error, and a message that holds
  \<open>str(count)\<close>.
\<close>

theorem validate_sensor_lla_count:
  assumes "get_client env bq_client = (Inr client, bq_client')"
    and "client (validation_query (full_table_name hostname (table_name mac_address)))
                (validation_parameters hostname mac_address LLA) = Inr (row # rest)"
    and "row ''count'' = Some (IntV n)"
  shows "(n = 0 \<longrightarrow> fst (validate_sensor_lla env bq_client hostname mac_address LLA) =
            Inr \<lparr>is_valid = False, message = ''LLA not found in metadata'', error = None\<rparr>)
       \<and> (n = 1 \<longrightarrow> fst (validate_sensor_lla env bq_client hostname mac_address LLA) =
            Inr \<lparr>is_valid = True, message = ''LLA found in metadata'', error = None\<rparr>)
       \<and> (1 < n \<longrightarrow> fst (validate_sensor_lla env bq_client hostname mac_address LLA) =
            Inr \<lparr>is_valid = True,
                 message = ''LLA found in metadata (exists in '' @ str_int n @ '' record(s))'',
                 error = None\<rparr>)"
proof -
  have "first_count (row # rest) = Inr n"
    using assms(3) by (simp add: first_count_def)
  then have "fst (validate_sensor_lla env bq_client hostname mac_address LLA) = Inr (count_result n)"
    using assms(1,2) by (simp add: validate_with_client)
  then show ?thesis
    by (simp add: count_result_def)
qed

theorem validate_sensor_lla_count_witness:
  "fst (validate_sensor_lla
         \<lparr>get_bigquery_client = Inr (\<lambda>q ps. Inr [[''count'' \<mapsto> IntV 0]]), int_max_str_digits = 4300,
            stdout_write = (\<lambda>s. None)\<rparr>
         None ''f4d_test'' ''aaaaaaaaaaaa'' ''fd002124b00ccf7399b'') =
     Inr \<lparr>is_valid = False, message = ''LLA not found in metadata'', error = None\<rparr>
   \<and> fst (validate_sensor_lla
         \<lparr>get_bigquery_client = Inr (\<lambda>q ps. Inr [[''count'' \<mapsto> IntV 1]]), int_max_str_digits = 4300,
            stdout_write = (\<lambda>s. None)\<rparr>
         None ''f4d_test'' ''aaaaaaaaaaaa'' ''fd002124b00ccf7399b'') =
     Inr \<lparr>is_valid = True, message = ''LLA found in metadata'', error = None\<rparr>
   \<and> fst (validate_sensor_lla
         \<lparr>get_bigquery_client = Inr (\<lambda>q ps. Inr [[''count'' \<mapsto> IntV 5]]), int_max_str_digits = 4300,
            stdout_write = (\<lambda>s. None)\<rparr>
         None ''f4d_test'' ''aaaaaaaaaaaa'' ''fd002124b00ccf7399b'') =
     Inr \<lparr>is_valid = True, message = ''LLA found in metadata (exists in 5 record(s))'',
          error = None\<rparr>"
proof -
  have five: "str_int 5 = ''5''"
    by (simp add: str_int_def str_nat.simps)
  have g: "\<And>c. get_client \<lparr>get_bigquery_client = Inr c, int_max_str_digits = 4300,
            stdout_write = (\<lambda>s. None)\<rparr> None = (Inr c, Some c)"
    by (simp add: get_client_def)
  show ?thesis
    using validate_sensor_lla_count [OF g, of "\<lambda>q ps. Inr [[''count'' \<mapsto> IntV 0]]" "''f4d_test''" "''aaaaaaaaaaaa''" "''fd002124b00ccf7399b''" "[''count'' \<mapsto> IntV 0]" "[]" 0]
          validate_sensor_lla_count [OF g, of "\<lambda>q ps. Inr [[''count'' \<mapsto> IntV 1]]" "''f4d_test''" "''aaaaaaaaaaaa''" "''fd002124b00ccf7399b''" "[''count'' \<mapsto> IntV 1]" "[]" 1]
          validate_sensor_lla_count [OF g, of "\<lambda>q ps. Inr [[''count'' \<mapsto> IntV 5]]" "''f4d_test''" "''aaaaaaaaaaaa''" "''fd002124b00ccf7399b''" "[''count'' \<mapsto> IntV 5]" "[]" 5]
    by (simp add: five)
qed

text \<open>
  C2: the two paths treat failure differently. Whatever exception (an instance of
  \<open>Exception\<close>) the backend raises, and also when it answers, validation returns a
  result and raises nothing; on an exception the result has \<open>is_valid = False\<close> and an
  error text, which for an absent table names the table. The listing raises
  \<open>HTTPException\<close> 404 for an absent table and \<open>HTTPException\<close> 500 for every other
  exception.
\<close>

theorem error_path_asymmetry:
  "((\<forall>e. backend_outcome env bq_client
            (validation_query (full_table_name hostname (table_name mac_address)))
            (validation_parameters hostname mac_address LLA) = Inl e \<longrightarrow> isinstance_Exception e) \<longrightarrow>
      (\<exists>r. fst (validate_sensor_lla env bq_client hostname mac_address LLA) = Inr r))
   \<and> (\<forall>e. backend_outcome env bq_client
            (validation_query (full_table_name hostname (table_name mac_address)))
            (validation_parameters hostname mac_address LLA) = Inl e \<and> isinstance_Exception e \<longrightarrow>
      (\<exists>r. fst (validate_sensor_lla env bq_client hostname mac_address LLA) = Inr r
           \<and> \<not> is_valid r \<and> error r \<noteq> None))
   \<and> (\<forall>e. backend_outcome env bq_client
            (validation_query (full_table_name hostname (table_name mac_address)))
            (validation_parameters hostname mac_address LLA) = Inl e \<and> isinstance_NotFound e \<longrightarrow>
      fst (validate_sensor_lla env bq_client hostname mac_address LLA) =
        Inr \<lparr>is_valid = False,
             message = ''Metadata table not found for MAC address: '' @ mac_address,
             error = Some (''Metadata table not found: ''
                             @ full_table_name hostname (table_name mac_address))\<rparr>)
   \<and> (\<forall>e. backend_outcome env bq_client
            (listing_query (full_table_name hostname (table_name mac_address))
               (fst (query_filters (int_max_str_digits env) hostname mac_address lla experiment all)))
            (snd (query_filters (int_max_str_digits env) hostname mac_address lla experiment all))
            = Inl e \<and> isinstance_NotFound e \<longrightarrow>
      fst (query_active_metadata env bq_client hostname mac_address lla experiment all) =
        Inl (HTTPException 404 (''Metadata table not found: ''
                                  @ full_table_name hostname (table_name mac_address))))
   \<and> (\<forall>e. backend_outcome env bq_client
            (listing_query (full_table_name hostname (table_name mac_address))
               (fst (query_filters (int_max_str_digits env) hostname mac_address lla experiment all)))
            (snd (query_filters (int_max_str_digits env) hostname mac_address lla experiment all))
            = Inl e \<and> isinstance_Exception e \<and> \<not> isinstance_NotFound e \<longrightarrow>
      (\<exists>detail. fst (query_active_metadata env bq_client hostname mac_address lla experiment all) =
        Inl (HTTPException 500 detail)))"
proof (intro conjI allI impI)
  assume a: "\<forall>e. backend_outcome env bq_client
            (validation_query (full_table_name hostname (table_name mac_address)))
            (validation_parameters hostname mac_address LLA) = Inl e \<longrightarrow> isinstance_Exception e"
  show "\<exists>r. fst (validate_sensor_lla env bq_client hostname mac_address LLA) = Inr r"
  proof (cases "backend_outcome env bq_client
            (validation_query (full_table_name hostname (table_name mac_address)))
            (validation_parameters hostname mac_address LLA)")
    case (Inl e)
    with a have "isinstance_Exception e" by simp
    with Inl show ?thesis
      using validation_except_returns [of e hostname mac_address]
      by (auto simp: validate_by_outcome)
  next
    case (Inr results)
    show ?thesis
    proof (cases "first_count results")
      case (Inl e)
      then have "isinstance_Exception e" by (rule first_count_Exception)
      with Inl Inr show ?thesis
        using validation_except_returns [of e hostname mac_address]
        by (auto simp: validate_by_outcome)
    next
      case (Inr n)
      with \<open>backend_outcome _ _ _ _ = Inr results\<close> show ?thesis
        by (simp add: validate_by_outcome)
    qed
  qed
next
  fix e
  assume "backend_outcome env bq_client
            (validation_query (full_table_name hostname (table_name mac_address)))
            (validation_parameters hostname mac_address LLA) = Inl e \<and> isinstance_Exception e"
  then show "\<exists>r. fst (validate_sensor_lla env bq_client hostname mac_address LLA) = Inr r
           \<and> \<not> is_valid r \<and> error r \<noteq> None"
    using validation_except_returns [of e hostname mac_address]
    by (auto simp: validate_by_outcome)
next
  fix e
  assume "backend_outcome env bq_client
            (validation_query (full_table_name hostname (table_name mac_address)))
            (validation_parameters hostname mac_address LLA) = Inl e \<and> isinstance_NotFound e"
  then show "fst (validate_sensor_lla env bq_client hostname mac_address LLA) =
        Inr \<lparr>is_valid = False,
             message = ''Metadata table not found for MAC address: '' @ mac_address,
             error = Some (''Metadata table not found: ''
                             @ full_table_name hostname (table_name mac_address))\<rparr>"
    by (simp add: validate_by_outcome validation_except_def)
next
  fix e
  assume "backend_outcome env bq_client
            (listing_query (full_table_name hostname (table_name mac_address))
               (fst (query_filters (int_max_str_digits env) hostname mac_address lla experiment all)))
            (snd (query_filters (int_max_str_digits env) hostname mac_address lla experiment all))
            = Inl e \<and> isinstance_NotFound e"
  then show "fst (query_active_metadata env bq_client hostname mac_address lla experiment all) =
        Inl (HTTPException 404 (''Metadata table not found: ''
                                  @ full_table_name hostname (table_name mac_address)))"
    by (simp add: listing_by_outcome listing_except_def)
next
  fix e
  assume "backend_outcome env bq_client
            (listing_query (full_table_name hostname (table_name mac_address))
               (fst (query_filters (int_max_str_digits env) hostname mac_address lla experiment all)))
            (snd (query_filters (int_max_str_digits env) hostname mac_address lla experiment all))
            = Inl e \<and> isinstance_Exception e \<and> \<not> isinstance_NotFound e"
  then show "\<exists>detail. fst (query_active_metadata env bq_client hostname mac_address lla experiment all) =
        Inl (HTTPException 500 detail)"
    by (simp add: listing_by_outcome listing_except_def)
qed

theorem error_path_asymmetry_witness:
  "fst (validate_sensor_lla
          \<lparr>get_bigquery_client = Inr (\<lambda>q ps. Inl (NotFound ''404 Not found: Table'')),
            int_max_str_digits = 4300,
            stdout_write = (\<lambda>s. None)\<rparr>
          None ''f4d_test'' ''aaaaaaaaaaaa'' ''fd002124b00ccf7399b'') =
     Inr \<lparr>is_valid = False,
          message = ''Metadata table not found for MAC address: aaaaaaaaaaaa'',
          error = Some ''Metadata table not found: iucc-f4d.f4d_test.aaaaaaaaaaaa_metadata''\<rparr>
   \<and> fst (query_active_metadata
          \<lparr>get_bigquery_client = Inr (\<lambda>q ps. Inl (NotFound ''404 Not found: Table'')),
            int_max_str_digits = 4300,
            stdout_write = (\<lambda>s. None)\<rparr>
          None ''f4d_test'' ''aaaaaaaaaaaa'' None None False) =
     Inl (HTTPException 404 ''Metadata table not found: iucc-f4d.f4d_test.aaaaaaaaaaaa_metadata'')
   \<and> (\<exists>detail. fst (query_active_metadata
          \<lparr>get_bigquery_client = Inr (\<lambda>q ps. Inl (GoogleCloudError ''403 Quota exceeded'')),
            int_max_str_digits = 4300,
            stdout_write = (\<lambda>s. None)\<rparr>
          None ''f4d_test'' ''aaaaaaaaaaaa'' None None False) =
     Inl (HTTPException 500 detail))
   \<and> (\<exists>r. fst (validate_sensor_lla
          \<lparr>get_bigquery_client = Inl (OtherException ''.env file not found''),
            int_max_str_digits = 4300,
            stdout_write = (\<lambda>s. None)\<rparr>
          None ''f4d_test'' ''aaaaaaaaaaaa'' ''fd002124b00ccf7399b'') = Inr r)"
  using error_path_asymmetry
          [of "\<lparr>get_bigquery_client = Inr (\<lambda>q ps. Inl (NotFound ''404 Not found: Table'')),
                int_max_str_digits = 4300,
            stdout_write = (\<lambda>s. None)\<rparr>"
              None "''f4d_test''" "''aaaaaaaaaaaa''" "''fd002124b00ccf7399b''" None None False]
        error_path_asymmetry
          [of "\<lparr>get_bigquery_client = Inr (\<lambda>q ps. Inl (GoogleCloudError ''403 Quota exceeded'')),
                int_max_str_digits = 4300,
            stdout_write = (\<lambda>s. None)\<rparr>"
              None "''f4d_test''" "''aaaaaaaaaaaa''" "''fd002124b00ccf7399b''" None None False]
        error_path_asymmetry
          [of "\<lparr>get_bigquery_client = Inl (OtherException ''.env file not found''),
                int_max_str_digits = 4300,
            stdout_write = (\<lambda>s. None)\<rparr>"
              None "''f4d_test''" "''aaaaaaaaaaaa''" "''fd002124b00ccf7399b''" None None False]
  by (simp add: backend_outcome_def get_client_def full_table_name_def table_name_def PROJECT_ID_def)

section \<open>Properties of the listing filters\<close>

text \<open>
  C3: with \<open>all = True\<close> a supplied \<open>lla\<close> and a supplied \<open>experiment\<close> are ignored:
  the conditions are exactly the owner and device equalities, the parameters exactly
  \<open>hostname\<close> and \<open>mac_address\<close>, and the handler behaves as if neither was given.
\<close>

theorem listing_all_ignores_filters:
  "query_filters maxd hostname mac_address lla experiment True =
     ([''Owner = @hostname'', ''Mac_Address = @mac_address''],
      [ScalarQueryParameter ''hostname'' ''STRING'' (PyStr hostname),
       ScalarQueryParameter ''mac_address'' ''STRING'' (PyStr mac_address)])
   \<and> join '' AND '' (fst (query_filters maxd hostname mac_address lla experiment True)) =
       ''Owner = @hostname AND Mac_Address = @mac_address''
   \<and> fst (query_active_metadata env bq_client hostname mac_address lla experiment True) =
       fst (query_active_metadata env bq_client hostname mac_address None None True)"
proof -
  have q: "\<And>l x. query_filters maxd hostname mac_address l x True =
     ([''Owner = @hostname'', ''Mac_Address = @mac_address''],
      [ScalarQueryParameter ''hostname'' ''STRING'' (PyStr hostname),
       ScalarQueryParameter ''mac_address'' ''STRING'' (PyStr mac_address)])" for maxd
    by (simp add: query_filters_def Let_def split: option.splits)
  show ?thesis
    by (simp add: q listing_by_outcome)
qed

theorem listing_all_ignores_filters_witness:
  "query_filters 4300 ''f4d_test'' ''aaaaaaaaaaaa'' (Some ''fd002124b00ccf7399b'')
       (Some ''1_Image_V2'') True =
     ([''Owner = @hostname'', ''Mac_Address = @mac_address''],
      [ScalarQueryParameter ''hostname'' ''STRING'' (PyStr ''f4d_test''),
       ScalarQueryParameter ''mac_address'' ''STRING'' (PyStr ''aaaaaaaaaaaa'')])"
  using listing_all_ignores_filters
          [of 4300 "''f4d_test''" "''aaaaaaaaaaaa''" "Some ''fd002124b00ccf7399b''"
              "Some ''1_Image_V2''"
              "\<lparr>get_bigquery_client = Inl (OtherException []), int_max_str_digits = 4300,
            stdout_write = (\<lambda>s. None)\<rparr>"
              None]
  by blast

text \<open>
  C9: with \<open>all = False\<close>, an empty \<open>lla\<close> adds no LLA condition or parameter and an
  empty \<open>experiment\<close> adds no experiment condition or parameters: each behaves as the
  absent value does.
\<close>

theorem empty_filter_is_absent:
  "query_filters maxd hostname mac_address (Some []) experiment False =
     query_filters maxd hostname mac_address None experiment False
   \<and> query_filters maxd hostname mac_address lla (Some []) False =
     query_filters maxd hostname mac_address lla None False
   \<and> query_filters maxd hostname mac_address (Some []) (Some []) False =
     ([''Owner = @hostname'', ''Mac_Address = @mac_address''],
      [ScalarQueryParameter ''hostname'' ''STRING'' (PyStr hostname),
       ScalarQueryParameter ''mac_address'' ''STRING'' (PyStr mac_address)])
   \<and> fst (query_active_metadata env bq_client hostname mac_address (Some []) experiment False) =
     fst (query_active_metadata env bq_client hostname mac_address None experiment False)
   \<and> fst (query_active_metadata env bq_client hostname mac_address lla (Some []) False) =
     fst (query_active_metadata env bq_client hostname mac_address lla None False)"
proof -
  have a: "\<And>x. query_filters maxd hostname mac_address (Some []) x False =
     query_filters maxd hostname mac_address None x False" for maxd
    by (simp add: query_filters_def)
  have b: "\<And>l. query_filters maxd hostname mac_address l (Some []) False =
     query_filters maxd hostname mac_address l None False" for maxd
    by (simp add: query_filters_def)
  have c: "query_filters maxd hostname mac_address None None False =
     ([''Owner = @hostname'', ''Mac_Address = @mac_address''],
      [ScalarQueryParameter ''hostname'' ''STRING'' (PyStr hostname),
       ScalarQueryParameter ''mac_address'' ''STRING'' (PyStr mac_address)])"
    by (simp add: query_filters_def)
  show ?thesis
    by (simp add: a b c listing_by_outcome)
qed

theorem empty_filter_is_absent_witness:
  "query_filters 4300 ''f4d_test'' ''aaaaaaaaaaaa'' (Some '''') (Some '''') False =
     ([''Owner = @hostname'', ''Mac_Address = @mac_address''],
      [ScalarQueryParameter ''hostname'' ''STRING'' (PyStr ''f4d_test''),
       ScalarQueryParameter ''mac_address'' ''STRING'' (PyStr ''aaaaaaaaaaaa'')])"
  using empty_filter_is_absent
          [of 4300 "''f4d_test''" "''aaaaaaaaaaaa''" "Some []" "Some []"
              "\<lparr>get_bigquery_client = Inl (OtherException []), int_max_str_digits = 4300,
            stdout_write = (\<lambda>s. None)\<rparr>"
              None]
  by blast

section \<open>Properties of table resolution\<close>

text \<open>
  C5: the table is the device identifier followed by \<open>_metadata\<close>, the dataset is the
  owner, and the full identifier is project, dataset and table joined by dots. Both are
  functions of their arguments alone: whatever the environment and the state of the global
  client left by earlier calls, the listing echoes these identifiers and validation names
  this table when it is absent.
\<close>

theorem table_resolution_pure:
  "table_name device_id = device_id @ ''_metadata''
   \<and> full_table_name owner (table_name device_id) =
       ''iucc-f4d'' @ ''.'' @ owner @ ''.'' @ device_id @ ''_metadata''
   \<and> (\<forall>r. fst (query_active_metadata env bq_client owner device_id lla experiment all) = Inr r \<longrightarrow>
          project r = ''iucc-f4d'' \<and> dataset r = owner \<and> table r = device_id @ ''_metadata''
          \<and> full_table r = project r @ ''.'' @ dataset r @ ''.'' @ table r)
   \<and> (\<forall>e. backend_outcome env bq_client
              (validation_query (''iucc-f4d'' @ ''.'' @ owner @ ''.'' @ device_id @ ''_metadata''))
              (validation_parameters owner device_id LLA) = Inl e \<and> isinstance_NotFound e \<longrightarrow>
          (\<exists>r. fst (validate_sensor_lla env bq_client owner device_id LLA) = Inr r
             \<and> error r = Some (''Metadata table not found: ''
                                 @ ''iucc-f4d'' @ ''.'' @ owner @ ''.'' @ device_id @ ''_metadata'')))"
proof -
  have f: "full_table_name owner (table_name device_id) =
       ''iucc-f4d'' @ ''.'' @ owner @ ''.'' @ device_id @ ''_metadata''"
    by (simp add: full_table_name_def table_name_def PROJECT_ID_def)
  have l: "\<forall>r. fst (query_active_metadata env bq_client owner device_id lla experiment all) = Inr r \<longrightarrow>
          project r = ''iucc-f4d'' \<and> dataset r = owner \<and> table r = device_id @ ''_metadata''
          \<and> full_table r = project r @ ''.'' @ dataset r @ ''.'' @ table r"
    by (auto simp: listing_by_outcome full_table_name_def table_name_def PROJECT_ID_def
             split: sum.splits)
  have v: "\<forall>e. backend_outcome env bq_client
              (validation_query (''iucc-f4d'' @ ''.'' @ owner @ ''.'' @ device_id @ ''_metadata''))
              (validation_parameters owner device_id LLA) = Inl e \<and> isinstance_NotFound e \<longrightarrow>
          (\<exists>r. fst (validate_sensor_lla env bq_client owner device_id LLA) = Inr r
             \<and> error r = Some (''Metadata table not found: ''
                                 @ ''iucc-f4d'' @ ''.'' @ owner @ ''.'' @ device_id @ ''_metadata''))"
    unfolding validate_by_outcome f
    by (auto simp: validation_except_def full_table_name_def table_name_def PROJECT_ID_def)
  show ?thesis
    using f l v by (simp add: table_name_def)
qed

theorem table_resolution_pure_witness:
  "table_name ''aaaaaaaaaaaa'' = ''aaaaaaaaaaaa_metadata''
   \<and> full_table_name ''f4d_test'' (table_name ''aaaaaaaaaaaa'') =
       ''iucc-f4d.f4d_test.aaaaaaaaaaaa_metadata''
   \<and> (\<exists>r. fst (query_active_metadata
                 \<lparr>get_bigquery_client = Inl (OtherException []), int_max_str_digits = 0,
            stdout_write = (\<lambda>s. None)\<rparr>
                 (Some (\<lambda>q ps. Inr []))
                 ''f4d_test'' ''aaaaaaaaaaaa'' None None False) = Inr r
          \<and> dataset r = ''f4d_test'' \<and> table r = ''aaaaaaaaaaaa_metadata''
          \<and> full_table r = ''iucc-f4d.f4d_test.aaaaaaaaaaaa_metadata'')
   \<and> (\<exists>r. fst (validate_sensor_lla
                 \<lparr>get_bigquery_client = Inr (\<lambda>q ps. Inl (NotFound [])), int_max_str_digits = 0,
            stdout_write = (\<lambda>s. None)\<rparr>
                 None ''f4d_test'' ''aaaaaaaaaaaa'' ''fd002124b00ccf7399b'') = Inr r
          \<and> error r = Some ''Metadata table not found: iucc-f4d.f4d_test.aaaaaaaaaaaa_metadata'')"
  using table_resolution_pure
          [of "''aaaaaaaaaaaa''" "''f4d_test''"
              "\<lparr>get_bigquery_client = Inl (OtherException []), int_max_str_digits = 0,
            stdout_write = (\<lambda>s. None)\<rparr>"
              "Some (\<lambda>q ps. Inr [])" None None False "''fd002124b00ccf7399b''"]
        table_resolution_pure
          [of "''aaaaaaaaaaaa''" "''f4d_test''"
              "\<lparr>get_bigquery_client = Inr (\<lambda>q ps. Inl (NotFound [])), int_max_str_digits = 0,
            stdout_write = (\<lambda>s. None)\<rparr>"
              None None None False "''fd002124b00ccf7399b''"]
  by (simp add: backend_outcome_def get_client_def listing_by_outcome
                full_table_name_def table_name_def PROJECT_ID_def)

section \<open>Properties of the query texts\<close>

text \<open>
  C6: in the validation query the hostname, the MAC address and the LLA are bound
  parameters of type \<open>STRING\<close>; the query text is the fixed \<open>COUNT(*)\<close> template, in
  which only the table identifier varies (the LLA occurs nowhere in it), and the handler
  consults the backend with exactly this text and these parameters.
\<close>

theorem validation_query_bound_parameters:
  "validation_parameters hostname mac_address LLA =
     [ScalarQueryParameter ''hostname'' ''STRING'' (PyStr hostname),
      ScalarQueryParameter ''mac_address'' ''STRING'' (PyStr mac_address),
      ScalarQueryParameter ''LLA'' ''STRING'' (PyStr LLA)]
   \<and> validation_query (full_table_name hostname (table_name mac_address)) =
       ''\<newline>        SELECT COUNT(*) as count\<newline>        FROM `''
       @ (''iucc-f4d'' @ ''.'' @ hostname @ ''.'' @ mac_address @ ''_metadata'')
       @ ''`\<newline>        WHERE Owner = @hostname\<newline>          AND Mac_Address = @mac_address\<newline>          AND LLA = @LLA\<newline>        ''
   \<and> fst (validate_sensor_lla env bq_client hostname mac_address LLA) =
       (case backend_outcome env bq_client
               (''\<newline>        SELECT COUNT(*) as count\<newline>        FROM `''
                @ (''iucc-f4d'' @ ''.'' @ hostname @ ''.'' @ mac_address @ ''_metadata'')
                @ ''`\<newline>        WHERE Owner = @hostname\<newline>          AND Mac_Address = @mac_address\<newline>          AND LLA = @LLA\<newline>        '')
               [ScalarQueryParameter ''hostname'' ''STRING'' (PyStr hostname),
                ScalarQueryParameter ''mac_address'' ''STRING'' (PyStr mac_address),
                ScalarQueryParameter ''LLA'' ''STRING'' (PyStr LLA)] of
          Inl e \<Rightarrow> validation_except hostname mac_address e
        | Inr results \<Rightarrow>
            (case first_count results of
               Inl e \<Rightarrow> validation_except hostname mac_address e
             | Inr n \<Rightarrow> Inr (count_result n)))"
proof -
  have q: "validation_query (full_table_name hostname (table_name mac_address)) =
       ''\<newline>        SELECT COUNT(*) as count\<newline>        FROM `''
       @ (''iucc-f4d'' @ ''.'' @ hostname @ ''.'' @ mac_address @ ''_metadata'')
       @ ''`\<newline>        WHERE Owner = @hostname\<newline>          AND Mac_Address = @mac_address\<newline>          AND LLA = @LLA\<newline>        ''"
    by (simp add: validation_query_def full_table_name_def table_name_def PROJECT_ID_def)
  have p: "validation_parameters hostname mac_address LLA =
     [ScalarQueryParameter ''hostname'' ''STRING'' (PyStr hostname),
      ScalarQueryParameter ''mac_address'' ''STRING'' (PyStr mac_address),
      ScalarQueryParameter ''LLA'' ''STRING'' (PyStr LLA)]"
    by (simp add: validation_parameters_def)
  show ?thesis
    using validate_by_outcome [of env bq_client hostname mac_address LLA]
    unfolding q p by simp
qed

theorem validation_query_bound_parameters_witness:
  "validation_parameters ''f4d_test'' ''aaaaaaaaaaaa'' ''x OR 1=1'' =
     [ScalarQueryParameter ''hostname'' ''STRING'' (PyStr ''f4d_test''),
      ScalarQueryParameter ''mac_address'' ''STRING'' (PyStr ''aaaaaaaaaaaa''),
      ScalarQueryParameter ''LLA'' ''STRING'' (PyStr ''x OR 1=1'')]
   \<and> validation_query (full_table_name ''f4d_test'' (table_name ''aaaaaaaaaaaa'')) =
       ''\<newline>        SELECT COUNT(*) as count\<newline>        FROM `iucc-f4d.f4d_test.aaaaaaaaaaaa_metadata`\<newline>        WHERE Owner = @hostname\<newline>          AND Mac_Address = @mac_address\<newline>          AND LLA = @LLA\<newline>        ''"
  using validation_query_bound_parameters
          [of "''f4d_test''" "''aaaaaaaaaaaa''" "''x OR 1=1''"
              "\<lparr>get_bigquery_client = Inl (OtherException []), int_max_str_digits = 4300,
            stdout_write = (\<lambda>s. None)\<rparr>" None]
  by simp

text \<open>
  C10: a successful response of the dump and of the listing has \<open>success = True\<close>, a
  \<open>count\<close> equal to the number of rows in \<open>data\<close>, and echoes the project, dataset and
  table of the identifier the query was built with; \<open>data\<close> is what the backend answered
  to that query.
\<close>

theorem success_response_invariant:
  "(fst (query_metadata_table env bq_client dset tbl lim off) = Inr r \<longrightarrow>
      success r \<and> count r = length (data r)
      \<and> project r = ''iucc-f4d'' \<and> dataset r = dset \<and> table r = tbl
      \<and> full_table r = project r @ ''.'' @ dataset r @ ''.'' @ table r
      \<and> backend_outcome env bq_client
          (''\<newline>        SELECT *\<newline>        FROM `'' @ full_table r @
           ''`\<newline>        LIMIT '' @ str_int lim @
           ''\<newline>        OFFSET '' @ str_int off @ ''\<newline>        '') [] = Inr (data r))
   \<and> (fst (query_active_metadata env bq_client hostname mac_address lla experiment all) = Inr r' \<longrightarrow>
      success r' \<and> count r' = length (data r')
      \<and> project r' = ''iucc-f4d'' \<and> dataset r' = hostname \<and> table r' = mac_address @ ''_metadata''
      \<and> full_table r' = project r' @ ''.'' @ dataset r' @ ''.'' @ table r'
      \<and> backend_outcome env bq_client
           (listing_query (full_table r')
              (fst (query_filters (int_max_str_digits env) hostname mac_address lla experiment all)))
           (snd (query_filters (int_max_str_digits env) hostname mac_address lla experiment all))
         = Inr (data r'))"
proof (rule conjI; rule impI)
  assume a: "fst (query_metadata_table env bq_client dset tbl lim off) = Inr r"
  then obtain client q results where
    g: "fst (get_client env bq_client) = Inr client" and
    d: "dump_query (int_max_str_digits env) (full_table_name dset tbl) lim off = Inr q" and
    c: "client q [] = Inr results" and
    r: "r = \<lparr>success = True, project = PROJECT_ID, dataset = dset, table = tbl,
              full_table = full_table_name dset tbl,
              count = length results, data = results, limit = lim, offset = off\<rparr>"
    by (auto simp: dump_by_outcome split: sum.splits option.splits)
  from d have q: "q = ''\<newline>        SELECT *\<newline>        FROM `'' @ full_table_name dset tbl @
           ''`\<newline>        LIMIT '' @ str_int lim @
           ''\<newline>        OFFSET '' @ str_int off @ ''\<newline>        ''"
    using dump_query_Inr by blast
  from g c have "backend_outcome env bq_client q [] = Inr results"
    by (simp add: backend_outcome_def)
  with r q show "success r \<and> count r = length (data r)
      \<and> project r = ''iucc-f4d'' \<and> dataset r = dset \<and> table r = tbl
      \<and> full_table r = project r @ ''.'' @ dataset r @ ''.'' @ table r
      \<and> backend_outcome env bq_client
          (''\<newline>        SELECT *\<newline>        FROM `'' @ full_table r @
           ''`\<newline>        LIMIT '' @ str_int lim @
           ''\<newline>        OFFSET '' @ str_int off @ ''\<newline>        '') [] = Inr (data r)"
    by (simp add: full_table_name_def PROJECT_ID_def)
next
  assume "fst (query_active_metadata env bq_client hostname mac_address lla experiment all) = Inr r'"
  then show "success r' \<and> count r' = length (data r')
      \<and> project r' = ''iucc-f4d'' \<and> dataset r' = hostname \<and> table r' = mac_address @ ''_metadata''
      \<and> full_table r' = project r' @ ''.'' @ dataset r' @ ''.'' @ table r'
      \<and> backend_outcome env bq_client
           (listing_query (full_table r')
              (fst (query_filters (int_max_str_digits env) hostname mac_address lla experiment all)))
           (snd (query_filters (int_max_str_digits env) hostname mac_address lla experiment all))
         = Inr (data r')"
    by (cases "backend_outcome env bq_client
           (listing_query (full_table_name hostname (table_name mac_address))
              (fst (query_filters (int_max_str_digits env) hostname mac_address lla experiment all)))
           (snd (query_filters (int_max_str_digits env) hostname mac_address lla experiment all))")
       (auto simp: listing_by_outcome full_table_name_def table_name_def PROJECT_ID_def)
qed

theorem success_response_invariant_witness:
  "(\<exists>r. fst (query_metadata_table
               \<lparr>get_bigquery_client =
                   Inr (\<lambda>q ps. Inr [[''LLA'' \<mapsto> StrV ''fd00''], [''LLA'' \<mapsto> NullV]]),
                 int_max_str_digits = 4300,
            stdout_write = (\<lambda>s. None)\<rparr>
               None ''f4d_test'' ''aaaaaaaaaaaa_metadata'' 100 0) = Inr r
        \<and> success r \<and> count r = 2 \<and> length (data r) = 2
        \<and> full_table r = ''iucc-f4d.f4d_test.aaaaaaaaaaaa_metadata'')
   \<and> (\<exists>r. fst (query_active_metadata
               \<lparr>get_bigquery_client =
                   Inr (\<lambda>q ps. Inr [[''LLA'' \<mapsto> StrV ''fd00''], [''LLA'' \<mapsto> NullV]]),
                 int_max_str_digits = 4300,
            stdout_write = (\<lambda>s. None)\<rparr>
               None ''f4d_test'' ''aaaaaaaaaaaa'' None None False) = Inr r
        \<and> success r \<and> count r = 2 \<and> length (data r) = 2
        \<and> full_table r = ''iucc-f4d.f4d_test.aaaaaaaaaaaa_metadata'')"
proof -
  let ?rows = "[[''LLA'' \<mapsto> StrV ''fd00''], [''LLA'' \<mapsto> NullV]]"
  let ?e = "\<lparr>get_bigquery_client = Inr (\<lambda>q ps. Inr ?rows), int_max_str_digits = 4300,
            stdout_write = (\<lambda>s. None)\<rparr>"
  have bo: "\<And>q ps. backend_outcome ?e None q ps = Inr ?rows"
    by (simp add: backend_outcome_def get_client_def)
  obtain r where r: "fst (query_metadata_table ?e None ''f4d_test'' ''aaaaaaaaaaaa_metadata'' 100 0) = Inr r"
    by (simp add: dump_by_outcome get_client_def dump_query_within within_digit_limit_def
          str_nat.simps)
  obtain r' where r': "fst (query_active_metadata ?e None ''f4d_test'' ''aaaaaaaaaaaa'' None None False) = Inr r'"
    by (simp add: listing_by_outcome bo)
  note inv = success_response_invariant
         [of ?e None "''f4d_test''" "''aaaaaaaaaaaa_metadata''" 100 0 r
             "''f4d_test''" "''aaaaaaaaaaaa''" None None False r']
  from inv r have a: "success r" "count r = length (data r)"
      "full_table r = project r @ ''.'' @ dataset r @ ''.'' @ table r"
      "project r = ''iucc-f4d''" "dataset r = ''f4d_test''" "table r = ''aaaaaaaaaaaa_metadata''"
      "Inr ?rows = (Inr (data r) :: exn + row list)"
    unfolding bo by blast+
  from inv r' have b: "success r'" "count r' = length (data r')"
      "full_table r' = project r' @ ''.'' @ dataset r' @ ''.'' @ table r'"
      "project r' = ''iucc-f4d''" "dataset r' = ''f4d_test''" "table r' = ''aaaaaaaaaaaa'' @ ''_metadata''"
      "Inr ?rows = (Inr (data r') :: exn + row list)"
    unfolding bo by blast+
  from a(7) have da: "data r = ?rows" by (simp only: sum.inject)
  from b(7) have db: "data r' = ?rows" by (simp only: sum.inject)
  have "success r \<and> count r = 2 \<and> length (data r) = 2
        \<and> full_table r = ''iucc-f4d.f4d_test.aaaaaaaaaaaa_metadata''"
    using a(1-6) by (simp add: da)
  moreover have "success r' \<and> count r' = 2 \<and> length (data r') = 2
        \<and> full_table r' = ''iucc-f4d.f4d_test.aaaaaaaaaaaa_metadata''"
    using b(1-6) by (simp add: db)
  ultimately show ?thesis
    using r r' by blast
qed

text \<open>Decimal rendering loses nothing: the integer can be read back from its text.\<close>

lemma digit_val_nth: "k < 10 \<Longrightarrow> digit_val (''0123456789'' ! k) = k"
proof -
  assume "k < 10"
  then have "k = 0 \<or> k = 1 \<or> k = 2 \<or> k = 3 \<or> k = 4 \<or> k = 5 \<or> k = 6 \<or> k = 7 \<or> k = 8 \<or> k = 9"
    by arith
  then show ?thesis
    by (auto simp: digit_val_def)
qed

lemma digit_nth_not_minus: "k < 10 \<Longrightarrow> ''0123456789'' ! k \<noteq> CHR ''-''"
proof -
  assume "k < 10"
  then have "k = 0 \<or> k = 1 \<or> k = 2 \<or> k = 3 \<or> k = 4 \<or> k = 5 \<or> k = 6 \<or> k = 7 \<or> k = 8 \<or> k = 9"
    by arith
  then show ?thesis
    by auto
qed

lemma value_str_nat: "foldl (\<lambda>a c. 10 * a + digit_val c) 0 (str_nat n) = n"
proof (induction n rule: str_nat.induct)
  case (1 n)
  show ?case
  proof (cases "n < 10")
    case True
    then show ?thesis
      by (subst str_nat.simps) (simp add: digit_val_nth)
  next
    case False
    with "1" show ?thesis
      by (subst str_nat.simps) (simp add: digit_val_nth)
  qed
qed

lemma str_nat_inj: "str_nat a = str_nat b \<Longrightarrow> a = b"
  by (metis value_str_nat)

lemma str_nat_no_minus: "CHR ''-'' \<notin> set (str_nat n)"
proof (induction n rule: str_nat.induct)
  case (1 n)
  show ?case
  proof (cases "n < 10")
    case True
    then show ?thesis
      using digit_nth_not_minus [of n] by (subst str_nat.simps) auto
  next
    case False
    with "1" show ?thesis
      using digit_nth_not_minus [of "n mod 10"] by (subst str_nat.simps) auto
  qed
qed

lemma str_int_inj: "str_int a = str_int b \<Longrightarrow> a = b"
proof -
  assume eq: "str_int a = str_int b"
  have m: "\<And>x y. CHR ''-'' # str_nat x \<noteq> str_nat y"
    using str_nat_no_minus by (metis list.set_intros(1))
  show ?thesis
  proof (cases "a < 0")
    case True
    show ?thesis
    proof (cases "b < 0")
      case True
      with \<open>a < 0\<close> eq have "nat (- a) = nat (- b)"
        by (auto simp: str_int_def dest: str_nat_inj)
      with True \<open>a < 0\<close> show ?thesis by simp
    next
      case False
      with True eq m [of "nat (- a)" "nat b"] show ?thesis
        by (simp add: str_int_def)
    qed
  next
    case False
    show ?thesis
    proof (cases "b < 0")
      case True
      with False eq m [of "nat (- b)" "nat a"] show ?thesis
        by (simp add: str_int_def)
    next
      case b: False
      with False eq have "nat a = nat b"
        by (auto simp: str_int_def dest: str_nat_inj)
      with False b show ?thesis by simp
    qed
  qed
qed

lemma str_nat_digits: "10 ^ k \<le> n \<Longrightarrow> k < length (str_nat n)"
proof (induction k arbitrary: n)
  case 0
  show ?case
    by (subst str_nat.simps) simp
next
  case (Suc k)
  have "(10::nat) \<le> 10 ^ Suc k"
    by simp
  with Suc.prems have a: "\<not> n < 10"
    by linarith
  from Suc.prems have "10 ^ k \<le> n div 10"
    by (simp add: less_eq_div_iff_mult_less_eq)
  then have "k < length (str_nat (n div 10))"
    by (rule Suc.IH)
  with a show ?case
    by (subst str_nat.simps) simp
qed

text \<open>
  C8: whenever the dump builds a query, it is \<open>SELECT * FROM\<close> the table,
  \<open>LIMIT str(limit) OFFSET str(offset)\<close>, with the caller's two integers as they came: no
  sign is tested and nothing is clamped (a negative value is written with its sign, and
  distinct values give distinct texts). The query is built, and is what the backend is
  asked, for every pair of integers that \<open>str\<close> renders, which is every integer when the
  interpreter has no digit limit; the response echoes both values. The handler itself
  checks neither value: past the interpreter's limit the f-string raises, no query exists
  and the handler raises \<open>HTTPException\<close> 500, as it does when the \<open>print\<close> before the
  f-string raises.
\<close>

theorem dump_query_passthrough:
  "(within_digit_limit (int_max_str_digits env) lim
      \<and> within_digit_limit (int_max_str_digits env) off \<longrightarrow>
      dump_query (int_max_str_digits env) (full_table_name dset tbl) lim off =
        Inr (''\<newline>        SELECT *\<newline>        FROM `''
           @ (''iucc-f4d'' @ ''.'' @ dset @ ''.'' @ tbl)
           @ ''`\<newline>        LIMIT '' @ str_int lim
           @ ''\<newline>        OFFSET '' @ str_int off @ ''\<newline>        ''))
   \<and> (\<forall>q. dump_query (int_max_str_digits env) (full_table_name dset tbl) lim off = Inr q \<longrightarrow>
         q = ''\<newline>        SELECT *\<newline>        FROM `''
           @ (''iucc-f4d'' @ ''.'' @ dset @ ''.'' @ tbl)
           @ ''`\<newline>        LIMIT '' @ str_int lim
           @ ''\<newline>        OFFSET '' @ str_int off @ ''\<newline>        '')
   \<and> (\<not> (within_digit_limit (int_max_str_digits env) lim
          \<and> within_digit_limit (int_max_str_digits env) off) \<longrightarrow>
       (\<exists>m. dump_query (int_max_str_digits env) (full_table_name dset tbl) lim off =
              Inl (OtherException m)))
   \<and> (int_max_str_digits env = 0 \<longrightarrow>
         within_digit_limit (int_max_str_digits env) lim
         \<and> within_digit_limit (int_max_str_digits env) off)
   \<and> (fst (get_client env bq_client) = Inr client
        \<and> stdout_write env (''Full table name: '' @ full_table_name dset tbl) = None
        \<and> within_digit_limit (int_max_str_digits env) lim
        \<and> within_digit_limit (int_max_str_digits env) off \<longrightarrow>
       fst (query_metadata_table env bq_client dset tbl lim off) =
         (case client
                 (''\<newline>        SELECT *\<newline>        FROM `''
           @ (''iucc-f4d'' @ ''.'' @ dset @ ''.'' @ tbl)
           @ ''`\<newline>        LIMIT '' @ str_int lim
           @ ''\<newline>        OFFSET '' @ str_int off @ ''\<newline>        '') [] of
            Inl e \<Rightarrow> Inl (dump_except e)
          | Inr results \<Rightarrow>
              Inr \<lparr>success = True, project = PROJECT_ID, dataset = dset, table = tbl,
                   full_table = full_table_name dset tbl,
                   count = length results, data = results, limit = lim, offset = off\<rparr>))
   \<and> (fst (get_client env bq_client) = Inr client
        \<and> stdout_write env (''Full table name: '' @ full_table_name dset tbl) = None
        \<and> \<not> (within_digit_limit (int_max_str_digits env) lim
              \<and> within_digit_limit (int_max_str_digits env) off) \<longrightarrow>
       (\<exists>detail. fst (query_metadata_table env bq_client dset tbl lim off) =
                   Inl (HTTPException 500 detail)))
   \<and> (fst (get_client env bq_client) = Inr client
        \<and> stdout_write env (''Full table name: '' @ full_table_name dset tbl) = Some e \<longrightarrow>
       fst (query_metadata_table env bq_client dset tbl lim off) = Inl (dump_except e))
   \<and> (lim < 0 \<longrightarrow> str_int lim = ''-'' @ str_nat (nat (- lim)))
   \<and> (off < 0 \<longrightarrow> str_int off = ''-'' @ str_nat (nat (- off)))
   \<and> (\<forall>lim' off'. str_int lim = str_int lim' \<and> str_int off = str_int off' \<longrightarrow>
         lim = lim' \<and> off = off')"
proof -
  let ?m = "int_max_str_digits env"
  let ?t = "''\<newline>        SELECT *\<newline>        FROM `''
           @ (''iucc-f4d'' @ ''.'' @ dset @ ''.'' @ tbl)
           @ ''`\<newline>        LIMIT '' @ str_int lim
           @ ''\<newline>        OFFSET '' @ str_int off @ ''\<newline>        ''"
  have f: "full_table_name dset tbl = ''iucc-f4d'' @ ''.'' @ dset @ ''.'' @ tbl"
    by (simp add: full_table_name_def PROJECT_ID_def)
  have c1: "within_digit_limit ?m lim \<and> within_digit_limit ?m off \<longrightarrow>
      dump_query ?m (full_table_name dset tbl) lim off = Inr ?t"
    by (simp add: dump_query_within f)
  have c2: "\<forall>q. dump_query ?m (full_table_name dset tbl) lim off = Inr q \<longrightarrow> q = ?t"
    using dump_query_Inr [of ?m "full_table_name dset tbl" lim off] by (simp add: f)
  have c3: "\<not> (within_digit_limit ?m lim \<and> within_digit_limit ?m off) \<longrightarrow>
       (\<exists>m. dump_query ?m (full_table_name dset tbl) lim off = Inl (OtherException m))"
    using dump_query_beyond [of ?m lim off "full_table_name dset tbl"] by blast
  have c4: "?m = 0 \<longrightarrow> within_digit_limit ?m lim \<and> within_digit_limit ?m off"
    by (simp add: within_digit_limit_def)
  have c5: "fst (get_client env bq_client) = Inr client
        \<and> stdout_write env (''Full table name: '' @ full_table_name dset tbl) = None
        \<and> within_digit_limit ?m lim \<and> within_digit_limit ?m off \<longrightarrow>
       fst (query_metadata_table env bq_client dset tbl lim off) =
         (case client ?t [] of
            Inl e \<Rightarrow> Inl (dump_except e)
          | Inr results \<Rightarrow>
              Inr \<lparr>success = True, project = PROJECT_ID, dataset = dset, table = tbl,
                   full_table = full_table_name dset tbl,
                   count = length results, data = results, limit = lim, offset = off\<rparr>)"
    using c1 by (auto simp: dump_by_outcome)
  have c6: "fst (get_client env bq_client) = Inr client
        \<and> stdout_write env (''Full table name: '' @ full_table_name dset tbl) = None
        \<and> \<not> (within_digit_limit ?m lim \<and> within_digit_limit ?m off) \<longrightarrow>
       (\<exists>detail. fst (query_metadata_table env bq_client dset tbl lim off) =
                   Inl (HTTPException 500 detail))"
  proof
    assume h: "fst (get_client env bq_client) = Inr client
        \<and> stdout_write env (''Full table name: '' @ full_table_name dset tbl) = None
        \<and> \<not> (within_digit_limit ?m lim \<and> within_digit_limit ?m off)"
    with c3 obtain m where
      "dump_query ?m (full_table_name dset tbl) lim off = Inl (OtherException m)"
      by blast
    with h show "\<exists>detail. fst (query_metadata_table env bq_client dset tbl lim off) =
                   Inl (HTTPException 500 detail)"
      by (simp add: dump_by_outcome dump_except_def)
  qed
  have c7: "fst (get_client env bq_client) = Inr client
        \<and> stdout_write env (''Full table name: '' @ full_table_name dset tbl) = Some e \<longrightarrow>
       fst (query_metadata_table env bq_client dset tbl lim off) = Inl (dump_except e)"
    by (simp add: dump_by_outcome)
  have c8: "lim < 0 \<longrightarrow> str_int lim = ''-'' @ str_nat (nat (- lim))"
    and c9: "off < 0 \<longrightarrow> str_int off = ''-'' @ str_nat (nat (- off))"
    by (simp_all add: str_int_def)
  have c10: "\<forall>lim' off'. str_int lim = str_int lim' \<and> str_int off = str_int off' \<longrightarrow>
         lim = lim' \<and> off = off'"
    by (auto dest: str_int_inj)
  from c1 c2 c3 c4 c5 c6 c7 c8 c9 c10 show ?thesis
    by blast
qed

theorem dump_query_passthrough_witness:
  "fst (query_metadata_table
          \<lparr>get_bigquery_client =
              Inr (\<lambda>q ps. if q = ''\<newline>        SELECT *\<newline>        FROM `iucc-f4d.f4d_test.aaaaaaaaaaaa_metadata`\<newline>        LIMIT -5\<newline>        OFFSET 200\<newline>        ''
                               \<and> ps = []
                            then Inr [] else Inl (NotFound [])),
            int_max_str_digits = 4300,
            stdout_write = (\<lambda>s. None)\<rparr>
          None ''f4d_test'' ''aaaaaaaaaaaa_metadata'' (- 5) 200) =
     Inr \<lparr>success = True, project = ''iucc-f4d'', dataset = ''f4d_test'',
          table = ''aaaaaaaaaaaa_metadata'',
          full_table = ''iucc-f4d.f4d_test.aaaaaaaaaaaa_metadata'',
          count = 0, data = [], limit = - 5, offset = 200\<rparr>
   \<and> (\<exists>detail. fst (query_metadata_table
          \<lparr>get_bigquery_client = Inr (\<lambda>q ps. Inr []),
            int_max_str_digits = 640,
            stdout_write = (\<lambda>s. None)\<rparr>
          None ''f4d_test'' ''aaaaaaaaaaaa_metadata'' (10 ^ 640) 0) =
        Inl (HTTPException 500 detail))"
proof -
  let ?c = "\<lambda>q ps. if q = ''\<newline>        SELECT *\<newline>        FROM `iucc-f4d.f4d_test.aaaaaaaaaaaa_metadata`\<newline>        LIMIT -5\<newline>        OFFSET 200\<newline>        ''
                               \<and> ps = []
                            then Inr [] else (Inl (NotFound []) :: exn + row list)"
  let ?e = "\<lparr>get_bigquery_client = Inr ?c, int_max_str_digits = 4300,
            stdout_write = (\<lambda>s. None)\<rparr>"
  let ?d = "\<lambda>q ps. (Inr [] :: exn + row list)"
  let ?e' = "\<lparr>get_bigquery_client = Inr ?d, int_max_str_digits = 640,
            stdout_write = (\<lambda>s. None)\<rparr>"
  have a: "str_int (- 5) = ''-5''" and c: "str_int 200 = ''200''"
    by (simp_all add: str_int_def str_nat.simps)
  have w: "within_digit_limit 4300 (- 5)" "within_digit_limit 4300 200"
    by (simp_all add: within_digit_limit_def str_nat.simps)
  have g: "fst (get_client ?e None) = Inr ?c" "fst (get_client ?e' None) = Inr ?d"
    by (simp_all add: get_client_def)
  have big: "(640::nat) < length (str_nat (10 ^ 640))"
    by (rule str_nat_digits) (rule order_refl)
  have pos: "(0::int) \<le> 10 ^ 640"
    by (rule zero_le_power) simp
  have "nat (10 ^ 640 :: int) = nat 10 ^ 640"
    by (rule nat_power_eq) simp
  moreover have "nat (10::int) = 10"
    by simp
  ultimately have n: "nat (abs (10 ^ 640 :: int)) = 10 ^ 640"
    by (simp only: abs_of_nonneg [OF pos])
  have m: "int_max_str_digits ?e' = 640"
    by simp
  have p: "stdout_write ?e' x = None" for x
    by simp
  have z: "(640::nat) \<noteq> 0"
    by simp
  from big have "\<not> length (str_nat (10 ^ 640)) \<le> 640"
    by (simp only: not_le)
  with z have b: "\<not> within_digit_limit 640 (10 ^ 640)"
    unfolding within_digit_limit_def n by blast
  note t = dump_query_passthrough
         [of ?e "- 5" 200 "''f4d_test''" "''aaaaaaaaaaaa_metadata''" None ?c,
          THEN conjunct2, THEN conjunct2, THEN conjunct2, THEN conjunct2, THEN conjunct1]
  have h1: "fst (get_client ?e None) = Inr ?c
        \<and> stdout_write ?e
             (''Full table name: '' @ full_table_name ''f4d_test'' ''aaaaaaaaaaaa_metadata'') = None
        \<and> within_digit_limit (int_max_str_digits ?e) (- 5)
        \<and> within_digit_limit (int_max_str_digits ?e) 200"
    using g(1) w by simp
  have one: "fst (query_metadata_table ?e None ''f4d_test'' ''aaaaaaaaaaaa_metadata'' (- 5) 200) =
     Inr \<lparr>success = True, project = ''iucc-f4d'', dataset = ''f4d_test'',
          table = ''aaaaaaaaaaaa_metadata'',
          full_table = ''iucc-f4d.f4d_test.aaaaaaaaaaaa_metadata'',
          count = 0, data = [], limit = - 5, offset = 200\<rparr>"
    using t [THEN mp, OF h1] by (simp add: a c full_table_name_def PROJECT_ID_def)
  note t' = dump_query_passthrough
         [of ?e' "10 ^ 640" 0 "''f4d_test''" "''aaaaaaaaaaaa_metadata''" None ?d,
          THEN conjunct2, THEN conjunct2, THEN conjunct2, THEN conjunct2, THEN conjunct2,
          THEN conjunct1]
  from b have "\<not> (within_digit_limit (int_max_str_digits ?e') (10 ^ 640)
                  \<and> within_digit_limit (int_max_str_digits ?e') 0)"
    unfolding m by blast
  with g(2) p
  have h: "fst (get_client ?e' None) = Inr ?d
        \<and> stdout_write ?e'
             (''Full table name: '' @ full_table_name ''f4d_test'' ''aaaaaaaaaaaa_metadata'') = None
        \<and> \<not> (within_digit_limit (int_max_str_digits ?e') (10 ^ 640)
              \<and> within_digit_limit (int_max_str_digits ?e') 0)"
    by blast
  have two: "\<exists>detail. fst (query_metadata_table ?e' None ''f4d_test'' ''aaaaaaaaaaaa_metadata''
                 (10 ^ 640) 0) = Inl (HTTPException 500 detail)"
    by (rule t' [THEN mp, OF h])
  from one two show ?thesis
    by (rule conjI)
qed

section \<open>The shape of the listing query\<close>

text \<open>The conditions and parameters of a listing, written out.\<close>

lemma split1_case:
  "(case split1 sep s of [a, b] \<Rightarrow> f a b | _ \<Rightarrow> g) =
     (if sep \<in> set s
      then f (takeWhile (\<lambda>c. c \<noteq> sep) s) (tl (dropWhile (\<lambda>c. c \<noteq> sep) s))
      else g)"
  by (simp add: split1_def)

lemma query_filters_explicit:
  "query_filters maxd hostname mac_address lla experiment all =
     ([''Owner = @hostname'', ''Mac_Address = @mac_address'']
        @ (if lla_active lla all then [''LLA = @lla''] else [])
        @ (if experiment_active maxd experiment all
           then [''Exp_ID = @exp_id AND Exp_Name = @exp_name''] else []),
      [ScalarQueryParameter ''hostname'' ''STRING'' (PyStr hostname),
       ScalarQueryParameter ''mac_address'' ''STRING'' (PyStr mac_address)]
        @ (case lla of
             None \<Rightarrow> []
           | Some v \<Rightarrow> if lla_active lla all
                       then [ScalarQueryParameter ''lla'' ''STRING'' (PyStr v)] else [])
        @ (case experiment of
             None \<Rightarrow> []
           | Some x \<Rightarrow>
               (case experiment_id maxd x of
                  None \<Rightarrow> []
                | Some exp_id \<Rightarrow>
                    if experiment_active maxd experiment all
                    then [ScalarQueryParameter ''exp_id'' ''INT64'' (PyInt exp_id),
                          ScalarQueryParameter ''exp_name'' ''STRING''
                            (PyStr (experiment_name x))]
                    else [])))"
proof (cases "lla")
  case None
  show ?thesis
  proof (cases "experiment")
    case n: None
    with None show ?thesis
      by (simp add: query_filters_def lla_active_def experiment_active_def Let_def)
  next
    case (Some x)
    with None show ?thesis
      by (cases "py_int maxd (takeWhile (\<lambda>c. c \<noteq> CHR ''_'') x)")
         (simp_all add: query_filters_def lla_active_def experiment_active_def
            experiment_id_def experiment_name_def split1_case Let_def)
  qed
next
  case (Some v)
  show ?thesis
  proof (cases "experiment")
    case None
    with Some show ?thesis
      by (simp add: query_filters_def lla_active_def experiment_active_def Let_def)
  next
    case x: (Some x)
    with Some show ?thesis
      by (cases "py_int maxd (takeWhile (\<lambda>c. c \<noteq> CHR ''_'') x)")
         (simp_all add: query_filters_def lla_active_def experiment_active_def
            experiment_id_def experiment_name_def split1_case Let_def)
  qed
qed


lemma takeWhile_before_sep:
  "sep \<notin> set l \<Longrightarrow> takeWhile (\<lambda>c. c \<noteq> sep) (l @ sep # r) = l"
  by (induction l) auto

lemma dropWhile_before_sep:
  "sep \<notin> set l \<Longrightarrow> dropWhile (\<lambda>c. c \<noteq> sep) (l @ sep # r) = sep # r"
  by (induction l) auto

lemma join_conditions:
  "join '' AND ''
     ([''Owner = @hostname'', ''Mac_Address = @mac_address'']
        @ (if a then [''LLA = @lla''] else [])
        @ (if b then [''Exp_ID = @exp_id AND Exp_Name = @exp_name''] else [])) =
   ''Owner = @hostname AND Mac_Address = @mac_address''
     @ (if a then '' AND LLA = @lla'' else [])
     @ (if b then '' AND Exp_ID = @exp_id AND Exp_Name = @exp_name'' else [])"
  by (cases a; cases b) simp_all

lemma listing_query_text:
  "listing_query (full_table_name hostname (table_name mac_address))
         (fst (query_filters maxd hostname mac_address lla experiment all)) =
       ''\<newline>        SELECT *\<newline>        FROM `''
         @ (''iucc-f4d'' @ ''.'' @ hostname @ ''.'' @ mac_address @ ''_metadata'')
         @ ''`\<newline>        WHERE Owner = @hostname AND Mac_Address = @mac_address''
         @ (if lla_active lla all then '' AND LLA = @lla'' else [])
         @ (if experiment_active maxd experiment all
            then '' AND Exp_ID = @exp_id AND Exp_Name = @exp_name'' else [])
         @ ''\<newline>        ORDER BY Exp_ID, Exp_Name, LLA\<newline>        ''"
  by (simp only: query_filters_explicit fst_conv join_conditions listing_query_def)
     (simp add: full_table_name_def table_name_def PROJECT_ID_def)

text \<open>
  C7: the conditions of a listing stand in the fixed order owner, device, LLA, experiment,
  in the list, in its parameters and in the \<open>WHERE\<close> clause of the generated text, which is
  given here character by character. The text and the parameter list are functions of the
  request and of the interpreter's digit limit: every run, in every state of the global
  client, asks the backend with exactly them, so two runs on the same request end alike
  whenever the backend answers alike.
\<close>

theorem listing_query_deterministic:
  "fst (query_filters maxd hostname mac_address lla experiment all) =
     [''Owner = @hostname'', ''Mac_Address = @mac_address'']
       @ (if lla_active lla all then [''LLA = @lla''] else [])
       @ (if experiment_active maxd experiment all
          then [''Exp_ID = @exp_id AND Exp_Name = @exp_name''] else [])
   \<and> map parameter_name (snd (query_filters maxd hostname mac_address lla experiment all)) =
       [''hostname'', ''mac_address'']
         @ (if lla_active lla all then [''lla''] else [])
         @ (if experiment_active maxd experiment all then [''exp_id'', ''exp_name''] else [])
   \<and> snd (query_filters maxd hostname mac_address lla experiment all) =
       [ScalarQueryParameter ''hostname'' ''STRING'' (PyStr hostname),
        ScalarQueryParameter ''mac_address'' ''STRING'' (PyStr mac_address)]
         @ (case lla of
              None \<Rightarrow> []
            | Some v \<Rightarrow> if lla_active lla all
                        then [ScalarQueryParameter ''lla'' ''STRING'' (PyStr v)] else [])
         @ (case experiment of
              None \<Rightarrow> []
            | Some x \<Rightarrow>
                (case experiment_id maxd x of
                   None \<Rightarrow> []
                 | Some exp_id \<Rightarrow>
                     if experiment_active maxd experiment all
                     then [ScalarQueryParameter ''exp_id'' ''INT64'' (PyInt exp_id),
                           ScalarQueryParameter ''exp_name'' ''STRING''
                             (PyStr (experiment_name x))]
                     else []))
   \<and> listing_query (full_table_name hostname (table_name mac_address))
         (fst (query_filters maxd hostname mac_address lla experiment all)) =
       ''\<newline>        SELECT *\<newline>        FROM `''
         @ (''iucc-f4d'' @ ''.'' @ hostname @ ''.'' @ mac_address @ ''_metadata'')
         @ ''`\<newline>        WHERE Owner = @hostname AND Mac_Address = @mac_address''
         @ (if lla_active lla all then '' AND LLA = @lla'' else [])
         @ (if experiment_active maxd experiment all
            then '' AND Exp_ID = @exp_id AND Exp_Name = @exp_name'' else [])
         @ ''\<newline>        ORDER BY Exp_ID, Exp_Name, LLA\<newline>        ''
   \<and> fst (query_active_metadata env bq_client hostname mac_address lla experiment all) =
       (case backend_outcome env bq_client
              (''\<newline>        SELECT *\<newline>        FROM `''
         @ (''iucc-f4d'' @ ''.'' @ hostname @ ''.'' @ mac_address @ ''_metadata'')
         @ ''`\<newline>        WHERE Owner = @hostname AND Mac_Address = @mac_address''
         @ (if lla_active lla all then '' AND LLA = @lla'' else [])
         @ (if experiment_active (int_max_str_digits env) experiment all
            then '' AND Exp_ID = @exp_id AND Exp_Name = @exp_name'' else [])
         @ ''\<newline>        ORDER BY Exp_ID, Exp_Name, LLA\<newline>        '')
              (snd (query_filters (int_max_str_digits env) hostname mac_address lla experiment all)) of
          Inl e \<Rightarrow> Inl (listing_except (full_table_name hostname (table_name mac_address)) e)
        | Inr results \<Rightarrow>
            Inr \<lparr>success = True, project = PROJECT_ID, dataset = hostname,
                 table = table_name mac_address,
                 full_table = full_table_name hostname (table_name mac_address),
                 count = length results, data = results\<rparr>)
   \<and> (\<forall>g w bq_client'.
        backend_outcome (env\<lparr>get_bigquery_client := g, stdout_write := w\<rparr>) bq_client'
              (''\<newline>        SELECT *\<newline>        FROM `''
         @ (''iucc-f4d'' @ ''.'' @ hostname @ ''.'' @ mac_address @ ''_metadata'')
         @ ''`\<newline>        WHERE Owner = @hostname AND Mac_Address = @mac_address''
         @ (if lla_active lla all then '' AND LLA = @lla'' else [])
         @ (if experiment_active (int_max_str_digits env) experiment all
            then '' AND Exp_ID = @exp_id AND Exp_Name = @exp_name'' else [])
         @ ''\<newline>        ORDER BY Exp_ID, Exp_Name, LLA\<newline>        '')
              (snd (query_filters (int_max_str_digits env) hostname mac_address lla experiment all))
        = backend_outcome env bq_client
              (''\<newline>        SELECT *\<newline>        FROM `''
         @ (''iucc-f4d'' @ ''.'' @ hostname @ ''.'' @ mac_address @ ''_metadata'')
         @ ''`\<newline>        WHERE Owner = @hostname AND Mac_Address = @mac_address''
         @ (if lla_active lla all then '' AND LLA = @lla'' else [])
         @ (if experiment_active (int_max_str_digits env) experiment all
            then '' AND Exp_ID = @exp_id AND Exp_Name = @exp_name'' else [])
         @ ''\<newline>        ORDER BY Exp_ID, Exp_Name, LLA\<newline>        '')
              (snd (query_filters (int_max_str_digits env) hostname mac_address lla experiment all))
        \<longrightarrow> fst (query_active_metadata (env\<lparr>get_bigquery_client := g, stdout_write := w\<rparr>) bq_client'
                   hostname mac_address lla experiment all)
            = fst (query_active_metadata env bq_client hostname mac_address lla experiment all))"
proof -
  have a: "fst (query_filters maxd hostname mac_address lla experiment all) =
     [''Owner = @hostname'', ''Mac_Address = @mac_address'']
       @ (if lla_active lla all then [''LLA = @lla''] else [])
       @ (if experiment_active maxd experiment all
          then [''Exp_ID = @exp_id AND Exp_Name = @exp_name''] else [])"
    by (simp add: query_filters_explicit)
  have b: "map parameter_name (snd (query_filters maxd hostname mac_address lla experiment all)) =
       [''hostname'', ''mac_address'']
         @ (if lla_active lla all then [''lla''] else [])
         @ (if experiment_active maxd experiment all then [''exp_id'', ''exp_name''] else [])"
    by (auto simp: query_filters_explicit lla_active_def experiment_active_def
             split: option.splits)
  have b2: "snd (query_filters maxd hostname mac_address lla experiment all) =
       [ScalarQueryParameter ''hostname'' ''STRING'' (PyStr hostname),
        ScalarQueryParameter ''mac_address'' ''STRING'' (PyStr mac_address)]
         @ (case lla of
              None \<Rightarrow> []
            | Some v \<Rightarrow> if lla_active lla all
                        then [ScalarQueryParameter ''lla'' ''STRING'' (PyStr v)] else [])
         @ (case experiment of
              None \<Rightarrow> []
            | Some x \<Rightarrow>
                (case experiment_id maxd x of
                   None \<Rightarrow> []
                 | Some exp_id \<Rightarrow>
                     if experiment_active maxd experiment all
                     then [ScalarQueryParameter ''exp_id'' ''INT64'' (PyInt exp_id),
                           ScalarQueryParameter ''exp_name'' ''STRING''
                             (PyStr (experiment_name x))]
                     else []))"
    by (simp add: query_filters_explicit)
  have c: "listing_query (full_table_name hostname (table_name mac_address))
         (fst (query_filters maxd hostname mac_address lla experiment all)) =
       ''\<newline>        SELECT *\<newline>        FROM `''
         @ (''iucc-f4d'' @ ''.'' @ hostname @ ''.'' @ mac_address @ ''_metadata'')
         @ ''`\<newline>        WHERE Owner = @hostname AND Mac_Address = @mac_address''
         @ (if lla_active lla all then '' AND LLA = @lla'' else [])
         @ (if experiment_active maxd experiment all
            then '' AND Exp_ID = @exp_id AND Exp_Name = @exp_name'' else [])
         @ ''\<newline>        ORDER BY Exp_ID, Exp_Name, LLA\<newline>        ''"
    by (rule listing_query_text)
  have d: "fst (query_active_metadata env bq_client hostname mac_address lla experiment all) =
       (case backend_outcome env bq_client
              (''\<newline>        SELECT *\<newline>        FROM `''
         @ (''iucc-f4d'' @ ''.'' @ hostname @ ''.'' @ mac_address @ ''_metadata'')
         @ ''`\<newline>        WHERE Owner = @hostname AND Mac_Address = @mac_address''
         @ (if lla_active lla all then '' AND LLA = @lla'' else [])
         @ (if experiment_active (int_max_str_digits env) experiment all
            then '' AND Exp_ID = @exp_id AND Exp_Name = @exp_name'' else [])
         @ ''\<newline>        ORDER BY Exp_ID, Exp_Name, LLA\<newline>        '')
              (snd (query_filters (int_max_str_digits env) hostname mac_address lla experiment all)) of
          Inl e \<Rightarrow> Inl (listing_except (full_table_name hostname (table_name mac_address)) e)
        | Inr results \<Rightarrow>
            Inr \<lparr>success = True, project = PROJECT_ID, dataset = hostname,
                 table = table_name mac_address,
                 full_table = full_table_name hostname (table_name mac_address),
                 count = length results, data = results\<rparr>)"
    unfolding listing_query_text [symmetric] by (rule listing_by_outcome)
  have e: "(\<forall>g w bq_client'.
        backend_outcome (env\<lparr>get_bigquery_client := g, stdout_write := w\<rparr>) bq_client'
              (''\<newline>        SELECT *\<newline>        FROM `''
         @ (''iucc-f4d'' @ ''.'' @ hostname @ ''.'' @ mac_address @ ''_metadata'')
         @ ''`\<newline>        WHERE Owner = @hostname AND Mac_Address = @mac_address''
         @ (if lla_active lla all then '' AND LLA = @lla'' else [])
         @ (if experiment_active (int_max_str_digits env) experiment all
            then '' AND Exp_ID = @exp_id AND Exp_Name = @exp_name'' else [])
         @ ''\<newline>        ORDER BY Exp_ID, Exp_Name, LLA\<newline>        '')
              (snd (query_filters (int_max_str_digits env) hostname mac_address lla experiment all))
        = backend_outcome env bq_client
              (''\<newline>        SELECT *\<newline>        FROM `''
         @ (''iucc-f4d'' @ ''.'' @ hostname @ ''.'' @ mac_address @ ''_metadata'')
         @ ''`\<newline>        WHERE Owner = @hostname AND Mac_Address = @mac_address''
         @ (if lla_active lla all then '' AND LLA = @lla'' else [])
         @ (if experiment_active (int_max_str_digits env) experiment all
            then '' AND Exp_ID = @exp_id AND Exp_Name = @exp_name'' else [])
         @ ''\<newline>        ORDER BY Exp_ID, Exp_Name, LLA\<newline>        '')
              (snd (query_filters (int_max_str_digits env) hostname mac_address lla experiment all))
        \<longrightarrow> fst (query_active_metadata (env\<lparr>get_bigquery_client := g, stdout_write := w\<rparr>) bq_client'
                   hostname mac_address lla experiment all)
            = fst (query_active_metadata env bq_client hostname mac_address lla experiment all))"
    unfolding listing_query_text [symmetric] by (simp add: listing_by_outcome)
  from a b b2 c d e show ?thesis
    by (intro conjI)
qed

theorem listing_query_deterministic_witness:
  "fst (query_filters 4300 ''f4d_test'' ''aaaaaaaaaaaa'' (Some ''fd00'') (Some ''12_Image_V2'') False) =
     [''Owner = @hostname'', ''Mac_Address = @mac_address'', ''LLA = @lla'',
      ''Exp_ID = @exp_id AND Exp_Name = @exp_name'']
   \<and> listing_query (full_table_name ''f4d_test'' (table_name ''aaaaaaaaaaaa''))
         (fst (query_filters 4300 ''f4d_test'' ''aaaaaaaaaaaa'' (Some ''fd00'')
                 (Some ''12_Image_V2'') False)) =
       ''\<newline>        SELECT *\<newline>        FROM `iucc-f4d.f4d_test.aaaaaaaaaaaa_metadata`\<newline>        WHERE Owner = @hostname AND Mac_Address = @mac_address AND LLA = @lla AND Exp_ID = @exp_id AND Exp_Name = @exp_name\<newline>        ORDER BY Exp_ID, Exp_Name, LLA\<newline>        ''
   \<and> fst (query_active_metadata
            \<lparr>get_bigquery_client = Inl (OtherException []), int_max_str_digits = 4300,
              stdout_write = (\<lambda>s. None)\<rparr>
            (Some (\<lambda>q ps. Inr []))
            ''f4d_test'' ''aaaaaaaaaaaa'' (Some ''fd00'') (Some ''12_Image_V2'') False) =
     fst (query_active_metadata
            \<lparr>get_bigquery_client = Inr (\<lambda>q ps. Inr []), int_max_str_digits = 4300,
              stdout_write = (\<lambda>s. None)\<rparr>
            None
            ''f4d_test'' ''aaaaaaaaaaaa'' (Some ''fd00'') (Some ''12_Image_V2'') False)"
proof -
  let ?c = "\<lambda>q ps. (Inr [] :: exn + row list)"
  let ?e = "\<lparr>get_bigquery_client = Inr ?c, int_max_str_digits = 4300,
             stdout_write = (\<lambda>s. None)\<rparr>"
  have a: "py_int 4300 (takeWhile (\<lambda>c. c \<noteq> CHR ''_'') ''12_Image_V2'') = Some 12"
    by code_simp
  have l: "lla_active (Some ''fd00'') False"
    by (simp add: lla_active_def)
  have e: "experiment_active 4300 (Some ''12_Image_V2'') False"
    using a by (simp add: experiment_active_def experiment_id_def)
  note t = listing_query_deterministic
             [of 4300 "''f4d_test''" "''aaaaaaaaaaaa''" "Some ''fd00''" "Some ''12_Image_V2''"
                 False ?e None]
  have one: "fst (query_filters 4300 ''f4d_test'' ''aaaaaaaaaaaa'' (Some ''fd00'')
                    (Some ''12_Image_V2'') False) =
     [''Owner = @hostname'', ''Mac_Address = @mac_address'', ''LLA = @lla'',
      ''Exp_ID = @exp_id AND Exp_Name = @exp_name'']"
    using t [THEN conjunct1] l e by simp
  have two: "listing_query (full_table_name ''f4d_test'' (table_name ''aaaaaaaaaaaa''))
         (fst (query_filters 4300 ''f4d_test'' ''aaaaaaaaaaaa'' (Some ''fd00'')
                 (Some ''12_Image_V2'') False)) =
       ''\<newline>        SELECT *\<newline>        FROM `iucc-f4d.f4d_test.aaaaaaaaaaaa_metadata`\<newline>        WHERE Owner = @hostname AND Mac_Address = @mac_address AND LLA = @lla AND Exp_ID = @exp_id AND Exp_Name = @exp_name\<newline>        ORDER BY Exp_ID, Exp_Name, LLA\<newline>        ''"
    using t [THEN conjunct2, THEN conjunct2, THEN conjunct2, THEN conjunct1] l e by simp
  have b: "backend_outcome
             (?e\<lparr>get_bigquery_client := Inl (OtherException []), stdout_write := (\<lambda>s. None)\<rparr>)
             (Some ?c) q ps = backend_outcome ?e None q ps" for q ps
    by (simp add: backend_outcome_def get_client_def)
  have three: "fst (query_active_metadata
            (?e\<lparr>get_bigquery_client := Inl (OtherException []), stdout_write := (\<lambda>s. None)\<rparr>)
            (Some ?c)
            ''f4d_test'' ''aaaaaaaaaaaa'' (Some ''fd00'') (Some ''12_Image_V2'') False) =
     fst (query_active_metadata ?e None
            ''f4d_test'' ''aaaaaaaaaaaa'' (Some ''fd00'') (Some ''12_Image_V2'') False)"
    by (rule t [THEN conjunct2, THEN conjunct2, THEN conjunct2, THEN conjunct2, THEN conjunct2,
                THEN spec [where x = "Inl (OtherException [])"],
                THEN spec [where x = "\<lambda>s. None"],
                THEN spec [where x = "Some ?c"], THEN mp])
       (rule b)
  from one two three show ?thesis
    by simp
qed

text \<open>
  C4: the experiment string is cut at its first underscore. When the text before it is an
  integer for \<open>int\<close>, the experiment condition is added with that integer and with the
  rest of the string, underscores included, as the name. When there is no underscore or the
  text before it is no integer, nothing is added and nothing is raised: conditions and
  parameters are those of a request without an experiment, which are the owner and device
  conditions alone when no LLA is given.
\<close>

theorem experiment_filter_parse:
  "(CHR ''_'' \<notin> set l \<and> py_int (int_max_str_digits env) l = Some n \<longrightarrow>
      query_filters (int_max_str_digits env) hostname mac_address lla (Some (l @ ''_'' @ r)) False =
        (fst (query_filters (int_max_str_digits env) hostname mac_address lla None False)
           @ [''Exp_ID = @exp_id AND Exp_Name = @exp_name''],
         snd (query_filters (int_max_str_digits env) hostname mac_address lla None False)
           @ [ScalarQueryParameter ''exp_id'' ''INT64'' (PyInt n),
              ScalarQueryParameter ''exp_name'' ''STRING'' (PyStr r)]))
   \<and> (CHR ''_'' \<notin> set x
        \<or> py_int (int_max_str_digits env) (takeWhile (\<lambda>c. c \<noteq> CHR ''_'') x) = None \<longrightarrow>
      query_filters (int_max_str_digits env) hostname mac_address lla (Some x) all =
        query_filters (int_max_str_digits env) hostname mac_address lla None all
      \<and> query_filters (int_max_str_digits env) hostname mac_address None (Some x) all =
          ([''Owner = @hostname'', ''Mac_Address = @mac_address''],
           [ScalarQueryParameter ''hostname'' ''STRING'' (PyStr hostname),
            ScalarQueryParameter ''mac_address'' ''STRING'' (PyStr mac_address)])
      \<and> fst (query_active_metadata env bq_client hostname mac_address lla (Some x) all) =
          fst (query_active_metadata env bq_client hostname mac_address lla None all))"
proof (rule conjI; rule impI)
  assume a: "CHR ''_'' \<notin> set l \<and> py_int (int_max_str_digits env) l = Some n"
  then have "experiment_id (int_max_str_digits env) (l @ ''_'' @ r) = Some n"
    and "experiment_name (l @ ''_'' @ r) = r"
    by (simp_all add: experiment_id_def experiment_name_def
          takeWhile_before_sep dropWhile_before_sep)
  then show "query_filters (int_max_str_digits env) hostname mac_address lla (Some (l @ ''_'' @ r)) False =
        (fst (query_filters (int_max_str_digits env) hostname mac_address lla None False)
           @ [''Exp_ID = @exp_id AND Exp_Name = @exp_name''],
         snd (query_filters (int_max_str_digits env) hostname mac_address lla None False)
           @ [ScalarQueryParameter ''exp_id'' ''INT64'' (PyInt n),
              ScalarQueryParameter ''exp_name'' ''STRING'' (PyStr r)])"
    by (simp add: query_filters_explicit experiment_active_def)
next
  assume "CHR ''_'' \<notin> set x
        \<or> py_int (int_max_str_digits env) (takeWhile (\<lambda>c. c \<noteq> CHR ''_'') x) = None"
  then have i: "experiment_id (int_max_str_digits env) x = None"
    by (auto simp: experiment_id_def)
  then have e: "query_filters (int_max_str_digits env) hostname mac_address l' (Some x) all =
        query_filters (int_max_str_digits env) hostname mac_address l' None all" for l'
    by (simp add: query_filters_explicit experiment_active_def)
  have b: "query_filters (int_max_str_digits env) hostname mac_address None None all =
          ([''Owner = @hostname'', ''Mac_Address = @mac_address''],
           [ScalarQueryParameter ''hostname'' ''STRING'' (PyStr hostname),
            ScalarQueryParameter ''mac_address'' ''STRING'' (PyStr mac_address)])"
    by (simp add: query_filters_explicit experiment_active_def lla_active_def)
  show "query_filters (int_max_str_digits env) hostname mac_address lla (Some x) all =
        query_filters (int_max_str_digits env) hostname mac_address lla None all
      \<and> query_filters (int_max_str_digits env) hostname mac_address None (Some x) all =
          ([''Owner = @hostname'', ''Mac_Address = @mac_address''],
           [ScalarQueryParameter ''hostname'' ''STRING'' (PyStr hostname),
            ScalarQueryParameter ''mac_address'' ''STRING'' (PyStr mac_address)])
      \<and> fst (query_active_metadata env bq_client hostname mac_address lla (Some x) all) =
          fst (query_active_metadata env bq_client hostname mac_address lla None all)"
    by (simp add: e b listing_by_outcome)
qed

theorem experiment_filter_parse_witness:
  "query_filters 4300 ''f4d_test'' ''aaaaaaaaaaaa'' None (Some ''12_Image_V2'') False =
     ([''Owner = @hostname'', ''Mac_Address = @mac_address'',
       ''Exp_ID = @exp_id AND Exp_Name = @exp_name''],
      [ScalarQueryParameter ''hostname'' ''STRING'' (PyStr ''f4d_test''),
       ScalarQueryParameter ''mac_address'' ''STRING'' (PyStr ''aaaaaaaaaaaa''),
       ScalarQueryParameter ''exp_id'' ''INT64'' (PyInt 12),
       ScalarQueryParameter ''exp_name'' ''STRING'' (PyStr ''Image_V2'')])
   \<and> query_filters 4300 ''f4d_test'' ''aaaaaaaaaaaa'' None (Some ''Image_V2'') False =
     ([''Owner = @hostname'', ''Mac_Address = @mac_address''],
      [ScalarQueryParameter ''hostname'' ''STRING'' (PyStr ''f4d_test''),
       ScalarQueryParameter ''mac_address'' ''STRING'' (PyStr ''aaaaaaaaaaaa'')])"
proof -
  let ?env = "\<lparr>get_bigquery_client = Inl (OtherException []), int_max_str_digits = 4300,
            stdout_write = (\<lambda>s. None)\<rparr>"
  have a: "py_int 4300 ''12'' = Some 12"
    by code_simp
  have b: "py_int 4300 (takeWhile (\<lambda>c. c \<noteq> CHR ''_'') ''Image_V2'') = None"
    by code_simp
  have c: "query_filters 4300 ''f4d_test'' ''aaaaaaaaaaaa'' None None False =
     ([''Owner = @hostname'', ''Mac_Address = @mac_address''],
      [ScalarQueryParameter ''hostname'' ''STRING'' (PyStr ''f4d_test''),
       ScalarQueryParameter ''mac_address'' ''STRING'' (PyStr ''aaaaaaaaaaaa'')])"
    by (simp add: query_filters_def)
  from experiment_filter_parse
         [of "''12''" ?env 12 "''f4d_test''" "''aaaaaaaaaaaa''" None "''Image_V2''"
             "''Image_V2''" False None]
       a b c
  show ?thesis
    by simp
qed

end
